theory Spec2Isabelle
  imports Complex_Main "HOL-Library.Word"
begin

section \<open>Conventions\<close>

text \<open>
  The JavaScript sources are embedded function by function.  A JavaScript number that
  holds a coordinate, a distance, a density or a duration is a \<^typ>\<open>real\<close> (ideal
  arithmetic: rounding, NaN and the infinities of IEEE doubles are outside the model);
  a number that counts things is an \<^typ>\<open>int\<close> or a \<^typ>\<open>nat\<close>.  An optional
  configuration key is an \<open>option\<close>: \<open>None\<close> is the missing key.  Mutation is explicit
  state passing.
\<close>

definition hypot :: "real \<Rightarrow> real \<Rightarrow> real" where
  "hypot a b = sqrt (a * a + b * b)"

text \<open>\<^verbatim>\<open>(typeof v === 'number') ? v : d\<close>\<close>

definition num_or :: "'a option \<Rightarrow> 'a \<Rightarrow> 'a" where
  "num_or v d = (case v of None \<Rightarrow> d | Some a \<Rightarrow> a)"

text \<open>\<^verbatim>\<open>v || d\<close> on a number: a missing key and the number zero are both falsy.\<close>

definition falsy_or :: "'a::zero option \<Rightarrow> 'a \<Rightarrow> 'a" where
  "falsy_or v d = (case v of None \<Rightarrow> d | Some a \<Rightarrow> if a = 0 then d else a)"

section \<open>SeededRandom\<close>

text \<open>
  Modelled from the spec: \<^verbatim>\<open>runtime/world/SeededRandom.js\<close> is imported by the map
  generator but is not among the sources.  The specification gives its contract: a
  generator is constructed from a 32-bit unsigned seed and exposes \<^verbatim>\<open>nextFloat()\<close> in
  \<open>[0,1)\<close>, \<^verbatim>\<open>range(min,max)\<close>, \<^verbatim>\<open>int(min,max)\<close> inclusive, \<^verbatim>\<open>pick(list)\<close> and
  \<^verbatim>\<open>chance(p)\<close>.  The generator itself is therefore a parameter of every function that
  draws from it: a state type \<open>'s\<close>, the constructor and the step \<^verbatim>\<open>nextFloat\<close>, which
  returns the float and the next state.  The derived draws are the usual ones, each
  consuming one float.
\<close>

record 's seeded_random =
  fromSeed :: "32 word \<Rightarrow> 's"
  nextFloat :: "'s \<Rightarrow> real \<times> 's"

text \<open>The contract of \<^verbatim>\<open>nextFloat\<close>.\<close>

definition unit_floats :: "'s seeded_random \<Rightarrow> bool" where
  "unit_floats R = (\<forall>s. 0 \<le> fst (nextFloat R s) \<and> fst (nextFloat R s) < 1)"

definition rng_range :: "'s seeded_random \<Rightarrow> real \<Rightarrow> real \<Rightarrow> 's \<Rightarrow> real \<times> 's" where
  "rng_range R lo hi s = (case nextFloat R s of (u, s') \<Rightarrow> (lo + u * (hi - lo), s'))"

definition rng_int :: "'s seeded_random \<Rightarrow> int \<Rightarrow> int \<Rightarrow> 's \<Rightarrow> int \<times> 's" where
  "rng_int R lo hi s =
     (case nextFloat R s of (u, s') \<Rightarrow> (lo + \<lfloor>u * of_int (hi - lo + 1)\<rfloor>, s'))"

text \<open>An index outside the array reads \<^verbatim>\<open>undefined\<close>, which is \<open>None\<close>.\<close>

definition rng_pick :: "'s seeded_random \<Rightarrow> 'a list \<Rightarrow> 's \<Rightarrow> 'a option \<times> 's" where
  "rng_pick R xs s =
     (case rng_int R 0 (int (length xs) - 1) s of
        (i, s') \<Rightarrow> (if 0 \<le> i \<and> nat i < length xs then Some (xs ! nat i) else None, s'))"

definition rng_chance :: "'s seeded_random \<Rightarrow> real \<Rightarrow> 's \<Rightarrow> bool \<times> 's" where
  "rng_chance R p s = (case nextFloat R s of (u, s') \<Rightarrow> (u < p, s'))"

text \<open>
  A loop \<^verbatim>\<open>for (let i = 0; i < n; i++) out.push(body())\<close> whose body only draws from the
  generator.
\<close>

fun for_push :: "nat \<Rightarrow> ('s \<Rightarrow> 'a \<times> 's) \<Rightarrow> 's \<Rightarrow> 'a list \<times> 's" where
  "for_push 0 body s = ([], s)"
| "for_push (Suc n) body s =
     (case body s of (a, s1) \<Rightarrow> (case for_push n body s1 of (as, s2) \<Rightarrow> (a # as, s2)))"

section \<open>MapGenerator.js\<close>

subsection \<open>Configuration\<close>

text \<open>
  \<^verbatim>\<open>cfg.width\<close> and \<^verbatim>\<open>cfg.height\<close>: an array of at least two numbers, a number, or
  anything else.
\<close>

datatype dim = DimRange int int | DimNum real | DimMissing

record gen_cfg =
  g_width :: dim
  g_height :: dim
  g_enemyDensity :: "real option"
  g_eliteDensity :: "real option"
  g_obstacleDensity :: "real option"

record nebula_cfg =
  neb_enabled :: bool
  neb_count :: "int option"
  neb_color :: "string option"

record parallax_cfg =
  bgColor :: "string option"
  nebula :: "nebula_cfg option"

text \<open>
  \<^verbatim>\<open>actConfig\<close>: \<open>act_pool\<close> and \<open>act_elitePool\<close> are \<^verbatim>\<open>actConfig.enemies?.pool\<close> and
  \<^verbatim>\<open>actConfig.enemies?.elitePool\<close>.
\<close>

record act_config =
  act_generation :: "gen_cfg option"
  act_biome :: "string option"
  act_pool :: "string list option"
  act_elitePool :: "string list option"
  act_parallax :: "parallax_cfg option"

text \<open>\<^verbatim>\<open>State.data.config?.exploration\<close>, the global tuning object.\<close>

record tuning =
  enemyDensityMult :: "real option"
  eliteDensityMult :: "real option"
  mapScale :: "real option"
  maxEnemySpawnsPerZone :: "int option"
  maxEliteSpawnsPerZone :: "int option"
  maxObstaclesPerZone :: "int option"
  maxDecorationsPerZone :: "int option"
  maxStarsBackground :: "real option"
  maxStarsMidground :: "real option"
  enemySpawnMinDistFromSpawn :: "real option"
  enemySpawnMinDistFromExit :: "real option"
  enemySpawnMinDistBetween :: "real option"
  spawnViewMargin :: "real option"
  despawnViewMargin :: "real option"
  enemyAggroRangeMult :: "real option"

text \<open>The empty object \<^verbatim>\<open>{}\<close> that stands in for a missing configuration.\<close>

definition no_tuning :: tuning where
  "no_tuning = \<lparr> enemyDensityMult = None, eliteDensityMult = None, mapScale = None,
     maxEnemySpawnsPerZone = None, maxEliteSpawnsPerZone = None, maxObstaclesPerZone = None,
     maxDecorationsPerZone = None, maxStarsBackground = None, maxStarsMidground = None,
     enemySpawnMinDistFromSpawn = None, enemySpawnMinDistFromExit = None,
     enemySpawnMinDistBetween = None, spawnViewMargin = None, despawnViewMargin = None,
     enemyAggroRangeMult = None \<rparr>"

definition no_gen_cfg :: gen_cfg where
  "no_gen_cfg = \<lparr> g_width = DimMissing, g_height = DimMissing, g_enemyDensity = None,
     g_eliteDensity = None, g_obstacleDensity = None \<rparr>"

record gen_options =
  opt_depth :: "int option"
  opt_mods :: "string list option"

record pack_member =
  pm_type :: "string option"
  pm_min :: "int option"
  pm_max :: "int option"

text \<open>
  A template of \<^verbatim>\<open>data/packs.json\<close>.  \<open>tpl_members\<close> and \<open>tpl_types\<close> are empty when
  the key is missing or is not a non-empty array.
\<close>

record pack_template =
  tpl_id :: "string option"
  tpl_weight :: "real option"
  tpl_members :: "pack_member list"
  tpl_types :: "string list"

record packs_data =
  templates :: "pack_template list"
  packChance :: "real option"
  packSizeMin :: "int option"
  packSizeMax :: "int option"
  maxPacksPerZone :: "int option"
  memberSpacing :: "real option"
  minDistFromSpawn :: "real option"
  minDistFromExit :: "real option"

subsection \<open>The zone descriptor\<close>

record point =
  pt_x :: real
  pt_y :: real

text \<open>
  A spawn descriptor.  \<open>sd_type\<close> is \<open>None\<close> for \<^verbatim>\<open>undefined\<close> (a pick from an empty
  pool); elite descriptors carry no patrol profile and only pack members a \<open>packId\<close>.
\<close>

record spawn_desc =
  sd_x :: real
  sd_y :: real
  sd_type :: "string option"
  sd_patrol :: "string option"
  sd_patrolRadius :: "int option"
  sd_active :: bool
  sd_killed :: bool
  sd_enemyId :: "string option"
  sd_packId :: "string option"

record obstacle =
  ob_x :: real
  ob_y :: real
  ob_type :: "string option"
  ob_radius :: int
  ob_rotation :: real
  ob_destructible :: bool
  ob_hp :: int
  ob_damage :: int

record decoration =
  dc_x :: real
  dc_y :: real
  dc_type :: "string option"
  dc_scale :: real
  dc_rotation :: real
  dc_alpha :: real

record star =
  star_x :: real
  star_y :: real
  star_size :: real
  star_brightness :: real
  star_twinkle :: bool

record wisp =
  wisp_x :: real
  wisp_y :: real
  wisp_width :: real
  wisp_height :: real
  wisp_color :: string
  wisp_alpha :: real
  wisp_rotation :: real

record parallax =
  bg_color :: string
  bg_stars :: "star list"
  mid_stars :: "star list"
  fg_objects :: "wisp list"

record zone =
  z_seed :: "32 word"
  z_width :: real
  z_height :: real
  z_biome :: string
  z_spawn :: point
  z_exit :: "point option"
  enemySpawns :: "spawn_desc list"
  eliteSpawns :: "spawn_desc list"
  obstacles :: "obstacle list"
  decorations :: "decoration list"
  z_parallax :: parallax

subsection \<open>Spawn and exit points\<close>

definition generateSpawnPoint :: "'s seeded_random \<Rightarrow> real \<Rightarrow> real \<Rightarrow> 's \<Rightarrow> point \<times> 's" where
  "generateSpawnPoint R w h s =
     (let margin = 100 in
      case rng_pick R [''bottom'', ''left'', ''right''] s of (edge, s1) \<Rightarrow>
        if edge = Some ''bottom'' then
          (case rng_range R margin (w - margin) s1 of
             (x, s2) \<Rightarrow> (\<lparr> pt_x = x, pt_y = h - margin \<rparr>, s2))
        else if edge = Some ''left'' then
          (case rng_range R margin (h - margin) s1 of
             (y, s2) \<Rightarrow> (\<lparr> pt_x = margin, pt_y = y \<rparr>, s2))
        else if edge = Some ''right'' then
          (case rng_range R margin (h - margin) s1 of
             (y, s2) \<Rightarrow> (\<lparr> pt_x = w - margin, pt_y = y \<rparr>, s2))
        else (\<lparr> pt_x = w / 2, pt_y = h - margin \<rparr>, s1))"

definition generateExitPoint ::
  "'s seeded_random \<Rightarrow> point \<Rightarrow> real \<Rightarrow> real \<Rightarrow> 's \<Rightarrow> point \<times> 's" where
  "generateExitPoint R spawn w h s =
     (let margin = 100 in
      if pt_y spawn > h / 2 then
        (case rng_range R margin (w - margin) s of
           (x, s1) \<Rightarrow> (\<lparr> pt_x = x, pt_y = margin \<rparr>, s1))
      else if pt_x spawn < w / 2 then
        (case rng_range R margin (h - margin) s of
           (y, s1) \<Rightarrow> (\<lparr> pt_x = w - margin, pt_y = y \<rparr>, s1))
      else
        (case rng_range R margin (h - margin) s of
           (y, s1) \<Rightarrow> (\<lparr> pt_x = margin, pt_y = y \<rparr>, s1)))"

subsection \<open>Enemy spawns\<close>

text \<open>
  One pass of the rejection loop of \<^verbatim>\<open>generateEnemySpawns\<close>: a candidate point, the
  three distance checks (each \<^verbatim>\<open>continue\<close> keeps the list), and the push.
\<close>

definition enemySpawnTry ::
  "'s seeded_random \<Rightarrow> string list \<Rightarrow> real \<Rightarrow> real \<Rightarrow> point \<Rightarrow> point \<Rightarrow> real \<Rightarrow> real \<Rightarrow> real
     \<Rightarrow> spawn_desc list \<Rightarrow> 's \<Rightarrow> spawn_desc list \<times> 's" where
  "enemySpawnTry R pool w h spawn exit dSpawn dExit dBetween spawns s =
     (case rng_range R 100 (w - 100) s of (x, s1) \<Rightarrow>
      case rng_range R 100 (h - 100) s1 of (y, s2) \<Rightarrow>
        let distSpawn = hypot (x - pt_x spawn) (y - pt_y spawn);
            distExit = hypot (x - pt_x exit) (y - pt_y exit)
        in
          if distSpawn < dSpawn then (spawns, s2)
          else if distExit < dExit then (spawns, s2)
          else if (\<exists>sp \<in> set spawns. hypot (x - sd_x sp) (y - sd_y sp) < dBetween)
            then (spawns, s2)
          else
            (case rng_pick R pool s2 of (t, s3) \<Rightarrow>
             case rng_pick R [''static'', ''circle'', ''line'', ''wander''] s3 of (pat, s4) \<Rightarrow>
             case rng_int R 50 150 s4 of (r, s5) \<Rightarrow>
               (spawns @ [\<lparr> sd_x = x, sd_y = y, sd_type = t, sd_patrol = pat,
                            sd_patrolRadius = Some r, sd_active = False, sd_killed = False,
                            sd_enemyId = None, sd_packId = None \<rparr>], s5)))"

text \<open>
  \<^verbatim>\<open>for (let i = 0; i < count * 3 && spawns.length < count; i++)\<close>: the first argument
  is the number of passes left.
\<close>

fun enemySpawnLoop ::
  "nat \<Rightarrow> nat \<Rightarrow> (spawn_desc list \<Rightarrow> 's \<Rightarrow> spawn_desc list \<times> 's) \<Rightarrow> spawn_desc list \<Rightarrow> 's
     \<Rightarrow> spawn_desc list \<times> 's" where
  "enemySpawnLoop 0 count attempt spawns s = (spawns, s)"
| "enemySpawnLoop (Suc n) count attempt spawns s =
     (if length spawns < count then
        (case attempt spawns s of (spawns', s') \<Rightarrow> enemySpawnLoop n count attempt spawns' s')
      else (spawns, s))"

definition generateEnemySpawns ::
  "'s seeded_random \<Rightarrow> tuning \<Rightarrow> string list \<Rightarrow> real \<Rightarrow> real \<Rightarrow> real \<Rightarrow> point \<Rightarrow> point \<Rightarrow> 's
     \<Rightarrow> spawn_desc list \<times> 's" where
  "generateEnemySpawns R tune pool density w h spawn exit s =
     (let maxSpawns = num_or (maxEnemySpawnsPerZone tune) 120;
          countRaw = \<lfloor>w * h * density\<rfloor>;
          count = max 0 (min countRaw maxSpawns);
          dSpawn = num_or (enemySpawnMinDistFromSpawn tune) 300;
          dExit = num_or (enemySpawnMinDistFromExit tune) 200;
          dBetween = num_or (enemySpawnMinDistBetween tune) 150
      in enemySpawnLoop (nat (count * 3)) (nat count)
           (enemySpawnTry R pool w h spawn exit dSpawn dExit dBetween) [] s)"

subsection \<open>Pack director\<close>

text \<open>
  The Fisher-Yates shuffle of the index array, \<^verbatim>\<open>for (let i = idx.length - 1; i > 0; i--)\<close>.
  Under the generator's contract \<^verbatim>\<open>rng.int(0, i)\<close> lies in \<open>[0, i]\<close>, so both reads are
  in range.
\<close>

fun shuffleLoop :: "'s seeded_random \<Rightarrow> nat \<Rightarrow> nat list \<Rightarrow> 's \<Rightarrow> nat list \<times> 's" where
  "shuffleLoop R 0 idx s = (idx, s)"
| "shuffleLoop R (Suc i) idx s =
     (case rng_int R 0 (int (Suc i)) s of
        (j, s') \<Rightarrow> shuffleLoop R i (idx[Suc i := idx ! nat j, nat j := idx ! Suc i]) s')"

definition tplWeight :: "pack_template \<Rightarrow> real" where
  "tplWeight t = num_or (tpl_weight t) 1"

fun pickTemplateLoop :: "real \<Rightarrow> pack_template list \<Rightarrow> pack_template option" where
  "pickTemplateLoop r [] = None"
| "pickTemplateLoop r (t # ts) =
     (let r' = r - tplWeight t in if r' \<le> 0 then Some t else pickTemplateLoop r' ts)"

definition pickTemplate ::
  "'s seeded_random \<Rightarrow> pack_template list \<Rightarrow> 's \<Rightarrow> pack_template \<times> 's" where
  "pickTemplate R tpls s =
     (let total = sum_list (map tplWeight tpls) in
      case rng_range R 0 total s of
        (r, s') \<Rightarrow> (case pickTemplateLoop r tpls of Some t \<Rightarrow> t | None \<Rightarrow> hd tpls, s'))"

definition validAnchor :: "point \<Rightarrow> point \<Rightarrow> real \<Rightarrow> real \<Rightarrow> spawn_desc \<Rightarrow> bool" where
  "validAnchor spawnPt exitPt dSpawn dExit p =
     (let ds = hypot (sd_x p - pt_x spawnPt) (sd_y p - pt_y spawnPt);
          de = hypot (sd_x p - pt_x exitPt) (sd_y p - pt_y exitPt)
      in ds \<ge> dSpawn \<and> de \<ge> dExit)"

text \<open>The explicit composition of a template: \<^verbatim>\<open>for (const mm of tpl.members)\<close>.\<close>

fun buildMembers ::
  "'s seeded_random \<Rightarrow> pack_member list \<Rightarrow> 's \<Rightarrow> string option list \<times> 's" where
  "buildMembers R [] s = ([], s)"
| "buildMembers R (mm # ms) s =
     (let mi = num_or (pm_min mm) 1;
          ma = num_or (pm_max mm) mi
      in case rng_int R mi ma s of (cnt, s1) \<Rightarrow>
         case buildMembers R ms s1 of (rest, s2) \<Rightarrow>
           (replicate (nat cnt) (pm_type mm) @ rest, s2))"

definition memberTypesOf ::
  "'s seeded_random \<Rightarrow> pack_template \<Rightarrow> 's \<Rightarrow> string option list option \<times> 's" where
  "memberTypesOf R tpl s =
     (if tpl_members tpl \<noteq> [] then
        (case buildMembers R (tpl_members tpl) s of
           (mt, s') \<Rightarrow> (if length mt < 1 then None else Some mt, s'))
      else (None, s))"

text \<open>
  The budget loop \<^verbatim>\<open>for (let kk = k + 1; kk < idx.length && consumed < size; kk++)\<close>
  over the rest of the shuffled order.
\<close>

fun consumeLoop :: "nat list \<Rightarrow> nat set \<Rightarrow> int \<Rightarrow> int \<Rightarrow> nat set" where
  "consumeLoop [] used consumed sz = used"
| "consumeLoop (j # js) used consumed sz =
     (if consumed < sz then
        (if j \<in> used then consumeLoop js used consumed sz
         else consumeLoop js (insert j used) (consumed + 1) sz)
      else used)"

text \<open>A type is falsy when it is \<^verbatim>\<open>null\<close>, \<^verbatim>\<open>undefined\<close> or the empty string.\<close>

definition falsy_str :: "string option \<Rightarrow> bool" where
  "falsy_str t = (t = None \<or> t = Some [])"

text \<open>One pack member: the body of \<^verbatim>\<open>for (let m = 0; m < size; m++)\<close>.\<close>

definition packMember ::
  "'s seeded_random \<Rightarrow> spawn_desc \<Rightarrow> pack_template \<Rightarrow> string option list option \<Rightarrow> string list
     \<Rightarrow> real \<Rightarrow> int \<Rightarrow> nat \<Rightarrow> 's \<Rightarrow> spawn_desc \<times> 's" where
  "packMember R anchor tpl memberTypes pool spacing sz m s =
     (case rng_range R 0 (pi * 2) s of (angle, s1) \<Rightarrow>
      case rng_range R 30 spacing s1 of (d, s2) \<Rightarrow>
        let px = sd_x anchor + cos angle * d;
            py = sd_y anchor + sin angle * d;
            forced = (case memberTypes of
                        Some mt \<Rightarrow> int (length mt) = sz
                      | None \<Rightarrow> False)
        in
          case (if forced then (the memberTypes ! m, s2)
                else if tpl_types tpl \<noteq> [] then rng_pick R (tpl_types tpl) s2
                else (None, s2)) of (type0, s3) \<Rightarrow>
          case (if falsy_str type0 then rng_pick R pool s3 else (type0, s3)) of (type, s4) \<Rightarrow>
            (\<lparr> sd_x = px, sd_y = py, sd_type = type, sd_patrol = sd_patrol anchor,
               sd_patrolRadius = sd_patrolRadius anchor, sd_active = False, sd_killed = False,
               sd_enemyId = None,
               sd_packId = Some (case tpl_id tpl of
                                   None \<Rightarrow> ''pack''
                                 | Some i \<Rightarrow> if i = [] then ''pack'' else i) \<rparr>, s4))"

fun packMembers :: "(nat \<Rightarrow> 's \<Rightarrow> spawn_desc \<times> 's) \<Rightarrow> nat \<Rightarrow> nat \<Rightarrow> 's \<Rightarrow> spawn_desc list \<times> 's" where
  "packMembers member m 0 s = ([], s)"
| "packMembers member m (Suc n) s =
     (case member m s of (d, s1) \<Rightarrow>
      case packMembers member (Suc m) n s1 of (ds, s2) \<Rightarrow> (d # ds, s2))"

record pack_state =
  used :: "nat set"
  out :: "spawn_desc list"
  packsMade :: int

text \<open>
  The body of the main loop for the shuffled index \<open>i = idx[k]\<close>; \<open>rest\<close> is the shuffled
  order behind position \<open>k\<close>.  Every \<^verbatim>\<open>continue\<close> returns the state unchanged.
\<close>

definition packStep ::
  "'s seeded_random \<Rightarrow> packs_data \<Rightarrow> spawn_desc list \<Rightarrow> string list \<Rightarrow> point \<Rightarrow> point
     \<Rightarrow> nat \<Rightarrow> nat list \<Rightarrow> pack_state \<Rightarrow> 's \<Rightarrow> pack_state \<times> 's" where
  "packStep R pd spawns pool spawnPt exitPt i rest st s =
     (let chance = num_or (packChance pd) 0.7;
          minSize = num_or (packSizeMin pd) 3;
          maxSize = num_or (packSizeMax pd) 5;
          spacing = num_or (memberSpacing pd) 120;
          dSpawn = num_or (minDistFromSpawn pd) 350;
          dExit = num_or (minDistFromExit pd) 250
      in
        if i \<in> used st then (st, s)
        else if \<not> i < length spawns then (st, s)
        else if \<not> validAnchor spawnPt exitPt dSpawn dExit (spawns ! i) then (st, s)
        else
          case rng_range R 0 1 s of (c, s1) \<Rightarrow>
            if c > chance then (st, s1)
            else
              case pickTemplate R (templates pd) s1 of (tpl, s2) \<Rightarrow>
              case memberTypesOf R tpl s2 of (memberTypes, s3) \<Rightarrow>
              case (case memberTypes of
                      Some mt \<Rightarrow> (int (length mt), s3)
                    | None \<Rightarrow> rng_int R minSize maxSize s3) of (sz, s4) \<Rightarrow>
                let used' = consumeLoop rest (insert i (used st)) 1 sz in
                case packMembers (packMember R (spawns ! i) tpl memberTypes pool spacing sz)
                       0 (nat sz) s4 of (members, s5) \<Rightarrow>
                  (\<lparr> used = used', out = out st @ members, packsMade = packsMade st + 1 \<rparr>, s5))"

text \<open>\<^verbatim>\<open>for (let k = 0; k < idx.length && packsMade < maxPacksPerZone; k++)\<close>\<close>

fun packLoop ::
  "int \<Rightarrow> (nat \<Rightarrow> nat list \<Rightarrow> pack_state \<Rightarrow> 's \<Rightarrow> pack_state \<times> 's) \<Rightarrow> nat list \<Rightarrow> pack_state \<Rightarrow> 's
     \<Rightarrow> pack_state \<times> 's" where
  "packLoop maxPacks step [] st s = (st, s)"
| "packLoop maxPacks step (i # rest) st s =
     (if packsMade st < maxPacks then
        (case step i rest st s of (st', s') \<Rightarrow> packLoop maxPacks step rest st' s')
      else (st, s))"

text \<open>\<^verbatim>\<open>State.data.packs\<close> is the parameter \<open>packs\<close>; \<open>None\<close> is a missing file.\<close>

definition applyPackDirector ::
  "'s seeded_random \<Rightarrow> packs_data option \<Rightarrow> spawn_desc list \<Rightarrow> string list \<Rightarrow> point \<Rightarrow> point \<Rightarrow> 's
     \<Rightarrow> spawn_desc list \<times> 's" where
  "applyPackDirector R packs spawns pool spawnPt exitPt s =
     (case packs of
        None \<Rightarrow> (spawns, s)
      | Some pd \<Rightarrow>
          if templates pd = [] then (spawns, s)
          else if int (length spawns) < num_or (packSizeMin pd) 3 then (spawns, s)
          else
            case shuffleLoop R (length spawns - 1) [0..<length spawns] s of (idx, s1) \<Rightarrow>
            case packLoop (num_or (maxPacksPerZone pd) 6)
                   (packStep R pd spawns pool spawnPt exitPt) idx
                   \<lparr> used = {}, out = [], packsMade = 0 \<rparr> s1 of (st, s2) \<Rightarrow>
              (out st @ map (\<lambda>i. spawns ! i) (filter (\<lambda>i. i \<notin> used st) [0..<length spawns]),
               s2))"

subsection \<open>Elites, obstacles, decorations\<close>

definition eliteSpawn :: "'s seeded_random \<Rightarrow> string list \<Rightarrow> real \<Rightarrow> real \<Rightarrow> 's \<Rightarrow> spawn_desc \<times> 's" where
  "eliteSpawn R pool w h s =
     (case rng_range R 200 (w - 200) s of (x, s1) \<Rightarrow>
      case rng_range R 200 (h - 200) s1 of (y, s2) \<Rightarrow>
      case rng_pick R pool s2 of (t, s3) \<Rightarrow>
        (\<lparr> sd_x = x, sd_y = y, sd_type = t, sd_patrol = None, sd_patrolRadius = None,
           sd_active = False, sd_killed = False, sd_enemyId = None, sd_packId = None \<rparr>, s3))"

definition generateEliteSpawns ::
  "'s seeded_random \<Rightarrow> tuning \<Rightarrow> string list \<Rightarrow> real \<Rightarrow> real \<Rightarrow> real \<Rightarrow> 's
     \<Rightarrow> spawn_desc list \<times> 's" where
  "generateEliteSpawns R tune pool density w h s =
     (let maxElites = num_or (maxEliteSpawnsPerZone tune) 8;
          countRaw = \<lfloor>w * h * density\<rfloor>;
          count = max 1 (min countRaw maxElites)
      in for_push (nat count) (eliteSpawn R pool w h) s)"

definition obstacleBody ::
  "'s seeded_random \<Rightarrow> real \<Rightarrow> real \<Rightarrow> int \<Rightarrow> bool \<Rightarrow> 's \<Rightarrow> obstacle \<times> 's" where
  "obstacleBody R w h depth minefield s =
     (let typePool = (if minefield then [''asteroid'', ''debris'', ''mine'', ''mine'']
                      else [''asteroid'', ''debris''])
      in
      case rng_pick R typePool s of (type, s1) \<Rightarrow>
      case rng_range R 100 (w - 100) s1 of (x, s2) \<Rightarrow>
      case rng_range R 100 (h - 100) s2 of (y, s3) \<Rightarrow>
      case (if type = Some ''asteroid'' then rng_int R 30 80 s3 else rng_int R 15 30 s3) of
        (radius, s4) \<Rightarrow>
      case rng_range R 0 (pi * 2) s4 of (rotation, s5) \<Rightarrow>
      case (if type = Some ''asteroid'' then rng_int R 25 60 s5
            else (if type = Some ''mine'' then 6 else 12, s5)) of (hp, s6) \<Rightarrow>
        (\<lparr> ob_x = x, ob_y = y, ob_type = type, ob_radius = radius, ob_rotation = rotation,
           ob_destructible = True, ob_hp = hp,
           ob_damage = (if type = Some ''mine'' then 8 + \<lfloor>of_int depth * (0.25 :: real)\<rfloor> else 0) \<rparr>,
         s6))"

definition generateObstacles ::
  "'s seeded_random \<Rightarrow> tuning \<Rightarrow> real \<Rightarrow> real \<Rightarrow> real \<Rightarrow> int \<Rightarrow> string list \<Rightarrow> 's
     \<Rightarrow> obstacle list \<times> 's" where
  "generateObstacles R tune density w h depth0 mods s =
     (let maxObs = num_or (maxObstaclesPerZone tune) 2500;
          depth = (if depth0 = 0 then 1 else depth0);
          countRaw = \<lfloor>w * h * density\<rfloor>;
          count = min countRaw maxObs
      in for_push (nat count) (obstacleBody R w h depth (''MINEFIELD'' \<in> set mods)) s)"

definition decorationBody ::
  "'s seeded_random \<Rightarrow> string list \<Rightarrow> real \<Rightarrow> real \<Rightarrow> 's \<Rightarrow> decoration \<times> 's" where
  "decorationBody R pool w h s =
     (case rng_range R 0 w s of (x, s1) \<Rightarrow>
      case rng_range R 0 h s1 of (y, s2) \<Rightarrow>
      case rng_pick R pool s2 of (t, s3) \<Rightarrow>
      case rng_range R 0.5 1.5 s3 of (scale, s4) \<Rightarrow>
      case rng_range R 0 (pi * 2) s4 of (rotation, s5) \<Rightarrow>
      case rng_range R 0.3 0.7 s5 of (alpha, s6) \<Rightarrow>
        (\<lparr> dc_x = x, dc_y = y, dc_type = t, dc_scale = scale, dc_rotation = rotation,
           dc_alpha = alpha \<rparr>, s6))"

definition generateDecorations ::
  "'s seeded_random \<Rightarrow> tuning \<Rightarrow> string option \<Rightarrow> real \<Rightarrow> real \<Rightarrow> 's \<Rightarrow> decoration list \<times> 's" where
  "generateDecorations R tune biome w h s =
     (let maxDec = num_or (maxDecorationsPerZone tune) 6000;
          countRaw = \<lfloor>w * h * 0.001\<rfloor>;
          count = min countRaw maxDec;
          pool = (if biome = Some ''asteroid'' then [''rock_small'', ''crystal'', ''ice_chunk'']
                  else if biome = Some ''station'' then [''debris'', ''panel'', ''wire'']
                  else [''star_cluster'', ''nebula_wisp'', ''dust_cloud''])
      in for_push (nat count) (decorationBody R pool w h) s)"

subsection \<open>Parallax layers\<close>

definition starBody :: "'s seeded_random \<Rightarrow> real \<Rightarrow> real \<Rightarrow> 's \<Rightarrow> star \<times> 's" where
  "starBody R w h s =
     (case rng_range R 0 w s of (x, s1) \<Rightarrow>
      case rng_range R 0 h s1 of (y, s2) \<Rightarrow>
      case rng_range R 0.5 2 s2 of (sz, s3) \<Rightarrow>
      case rng_range R 0.3 1 s3 of (b, s4) \<Rightarrow>
      case rng_chance R 0.3 s4 of (tw, s5) \<Rightarrow>
        (\<lparr> star_x = x, star_y = y, star_size = sz, star_brightness = b, star_twinkle = tw \<rparr>,
         s5))"

text \<open>
  \<^verbatim>\<open>generateStarfield\<close>: the cap is \<^verbatim>\<open>Math.floor(maxCount)\<close> when \<^verbatim>\<open>maxCount\<close> is
  positive, and a cap that floors to zero is falsy, which leaves the count uncapped.
\<close>

definition generateStarfield ::
  "'s seeded_random \<Rightarrow> real \<Rightarrow> real \<Rightarrow> real \<Rightarrow> real \<Rightarrow> 's \<Rightarrow> star list \<times> 's" where
  "generateStarfield R w h density maxCount s =
     (let countRaw = \<lfloor>w * h * density\<rfloor>;
          cap = (if maxCount > 0 then \<lfloor>maxCount\<rfloor> else 0);
          count = (if cap \<noteq> 0 then min countRaw cap else countRaw)
      in for_push (nat count) (starBody R w h) s)"

definition wispBody :: "'s seeded_random \<Rightarrow> string \<Rightarrow> real \<Rightarrow> real \<Rightarrow> 's \<Rightarrow> wisp \<times> 's" where
  "wispBody R color w h s =
     (case rng_range R 0 w s of (x, s1) \<Rightarrow>
      case rng_range R 0 h s1 of (y, s2) \<Rightarrow>
      case rng_range R 200 500 s2 of (ww, s3) \<Rightarrow>
      case rng_range R 100 300 s3 of (wh, s4) \<Rightarrow>
      case rng_range R 0.05 0.15 s4 of (alpha, s5) \<Rightarrow>
      case rng_range R 0 (pi * 2) s5 of (rotation, s6) \<Rightarrow>
        (\<lparr> wisp_x = x, wisp_y = y, wisp_width = ww, wisp_height = wh, wisp_color = color,
           wisp_alpha = alpha, wisp_rotation = rotation \<rparr>, s6))"

definition generateNebulaWisps ::
  "'s seeded_random \<Rightarrow> real \<Rightarrow> real \<Rightarrow> nebula_cfg option \<Rightarrow> 's \<Rightarrow> wisp list \<times> 's" where
  "generateNebulaWisps R w h nebulaConfig s =
     (case nebulaConfig of
        None \<Rightarrow> ([], s)
      | Some nc \<Rightarrow>
          if \<not> neb_enabled nc then ([], s)
          else
            case (case neb_count nc of
                    None \<Rightarrow> rng_int R 3 8 s
                  | Some c \<Rightarrow> if c = 0 then rng_int R 3 8 s else (c, s)) of (count, s1) \<Rightarrow>
              let color = (case neb_color nc of
                             None \<Rightarrow> ''#4400aa''
                           | Some c \<Rightarrow> if c = [] then ''#4400aa'' else c)
              in for_push (nat count) (wispBody R color w h) s1)"

definition generateParallax ::
  "'s seeded_random \<Rightarrow> tuning \<Rightarrow> act_config \<Rightarrow> real \<Rightarrow> real \<Rightarrow> 's \<Rightarrow> parallax \<times> 's" where
  "generateParallax R tune actConfig w h s =
     (let maxBgStars = num_or (maxStarsBackground tune) 1800;
          maxMidStars = num_or (maxStarsMidground tune) 1200;
          color = (case act_parallax actConfig of
                     None \<Rightarrow> None
                   | Some c \<Rightarrow> bgColor c);
          neb = (case act_parallax actConfig of
                   None \<Rightarrow> None
                 | Some c \<Rightarrow> nebula c)
      in
      case generateStarfield R (w * 1.5) (h * 1.5) 0.0003 maxBgStars s of (bg, s1) \<Rightarrow>
      case generateStarfield R (w * 1.3) (h * 1.3) 0.0002 maxMidStars s1 of (mid, s2) \<Rightarrow>
      case generateNebulaWisps R w h neb s2 of (fg, s3) \<Rightarrow>
        (\<lparr> bg_color = (case color of
                          None \<Rightarrow> ''#0a0a15''
                        | Some c \<Rightarrow> if c = [] then ''#0a0a15'' else c),
           bg_stars = bg, mid_stars = mid, fg_objects = fg \<rparr>, s3))"

subsection \<open>generate\<close>

definition pickRange :: "'s seeded_random \<Rightarrow> dim \<Rightarrow> int \<Rightarrow> int \<Rightarrow> 's \<Rightarrow> real \<times> 's" where
  "pickRange R v fallbackMin fallbackMax s =
     (case v of
        DimRange a b \<Rightarrow> (case rng_int R a b s of (n, s') \<Rightarrow> (of_int n, s'))
      | DimNum r \<Rightarrow> (r, s)
      | DimMissing \<Rightarrow>
          (case rng_int R fallbackMin fallbackMax s of (n, s') \<Rightarrow> (of_int n, s')))"

text \<open>
  The densities of \<^verbatim>\<open>generate\<close> after the depth ramp, the modifiers and the global
  multipliers, in the order of the source.
\<close>

definition enemyDensityOf :: "tuning \<Rightarrow> gen_cfg \<Rightarrow> int \<Rightarrow> string list \<Rightarrow> real" where
  "enemyDensityOf tune cfg depth mods =
     (let depthEnemyMult = 1 + min (of_int depth * 0.012) 1.6;
          d0 = falsy_or (g_enemyDensity cfg) 0.0005 * depthEnemyMult;
          d1 = (if ''BULLET_HELL'' \<in> set mods then d0 * 1.35 else d0);
          d2 = (if ''FAST_ENEMIES'' \<in> set mods then d1 * 1.10 else d1)
      in case enemyDensityMult tune of None \<Rightarrow> d2 | Some m \<Rightarrow> d2 * m)"

definition eliteDensityOf :: "tuning \<Rightarrow> gen_cfg \<Rightarrow> int \<Rightarrow> string list \<Rightarrow> real" where
  "eliteDensityOf tune cfg depth mods =
     (let depthEliteMult = 1 + min (of_int depth * 0.010) 1.2;
          d0 = falsy_or (g_eliteDensity cfg) 0.00008 * depthEliteMult;
          d1 = (if ''ELITE_PACKS'' \<in> set mods then d0 * 1.55 else d0)
      in case eliteDensityMult tune of None \<Rightarrow> d1 | Some m \<Rightarrow> d1 * m)"

definition obstacleDensityOf :: "gen_cfg \<Rightarrow> int \<Rightarrow> string list \<Rightarrow> real" where
  "obstacleDensityOf cfg depth mods =
     (let depthObsMult = 1 + min (of_int depth * 0.008) 1.0;
          d0 = falsy_or (g_obstacleDensity cfg) 0.0002 * depthObsMult;
          d1 = (if ''DENSE_OBSTACLES'' \<in> set mods then d0 * 1.35 else d0)
      in if ''MINEFIELD'' \<in> set mods then d1 * 1.15 else d1)"

text \<open>
  The zone dimensions: the picked value, shrunk by the cramped modifier, then scaled by
  \<^verbatim>\<open>tune.mapScale\<close> with a floor of 600.
\<close>

definition scaleDim :: "tuning \<Rightarrow> string list \<Rightarrow> real \<Rightarrow> real" where
  "scaleDim tune mods v =
     (let crampedMult = (if ''CRAMPED_ZONE'' \<in> set mods then 0.85 else 1.0 :: real);
          v1 = (if crampedMult \<noteq> 1.0 then of_int \<lfloor>v * crampedMult\<rfloor> else v);
          scale = (case mapScale tune of
                     None \<Rightarrow> 1.0
                   | Some m \<Rightarrow> if m > 0 then m else 1.0)
      in if scale \<noteq> 1.0 then max 600 (of_int \<lfloor>v1 * scale\<rfloor>) else v1)"

text \<open>
  The body of \<^verbatim>\<open>MapGenerator.generate(actConfig, zoneSeed, options)\<close> from a given
  state of the generator.  The global objects it reads, \<^verbatim>\<open>State.data.config.exploration\<close>
  and \<^verbatim>\<open>State.data.packs\<close>, are the parameters \<open>tune\<close> and \<open>packs\<close>.  The generator
  is threaded in the order of evaluation of the source: width, height, spawn point,
  parallax (both inside the object literal), exit, enemy spawns, pack director, elites,
  obstacles, decorations.  The fields \<^verbatim>\<open>bossSpawn: null\<close>, \<^verbatim>\<open>pickups: []\<close> and
  \<^verbatim>\<open>portals: []\<close> of the zone are constants and are left out.
\<close>

definition generateFrom ::
  "'s seeded_random \<Rightarrow> tuning \<Rightarrow> packs_data option \<Rightarrow> act_config \<Rightarrow> 32 word \<Rightarrow> gen_options \<Rightarrow> 's
     \<Rightarrow> zone \<times> 's" where
  "generateFrom R tune packs actConfig zoneSeed options s0 =
     (let cfg = (case act_generation actConfig of None \<Rightarrow> no_gen_cfg | Some c \<Rightarrow> c);
          depth = falsy_or (opt_depth options) 1;
          mods = (case opt_mods options of None \<Rightarrow> [] | Some m \<Rightarrow> m);
          enemyDensity = enemyDensityOf tune cfg depth mods;
          eliteDensity = eliteDensityOf tune cfg depth mods;
          obstacleDensity = obstacleDensityOf cfg depth mods;
          pool = (case act_pool actConfig of None \<Rightarrow> [''grunt''] | Some p \<Rightarrow> p);
          elitePool = (case act_elitePool actConfig of None \<Rightarrow> [''commander''] | Some p \<Rightarrow> p)
      in
      case pickRange R (g_width cfg) 1500 3000 s0 of (width0, s1) \<Rightarrow>
      case pickRange R (g_height cfg) 1500 3000 s1 of (height0, s2) \<Rightarrow>
        let width = scaleDim tune mods width0;
            height = scaleDim tune mods height0
        in
        case generateSpawnPoint R width height s2 of (spawn, s3) \<Rightarrow>
        case generateParallax R tune actConfig width height s3 of (par, s4) \<Rightarrow>
        case generateExitPoint R spawn width height s4 of (exit, s5) \<Rightarrow>
        case generateEnemySpawns R tune pool enemyDensity width height spawn exit s5 of
          (singles, s6) \<Rightarrow>
        case applyPackDirector R packs singles pool spawn exit s6 of (enemySp, s7) \<Rightarrow>
        case generateEliteSpawns R tune elitePool eliteDensity width height s7 of
          (eliteSp, s8) \<Rightarrow>
        case generateObstacles R tune obstacleDensity width height depth mods s8 of
          (obs, s9) \<Rightarrow>
        case generateDecorations R tune (act_biome actConfig) width height s9 of
          (decs, s10) \<Rightarrow>
          (\<lparr> z_seed = zoneSeed, z_width = width, z_height = height,
            z_biome = (case act_biome actConfig of
                         None \<Rightarrow> ''space''
                       | Some b \<Rightarrow> if b = [] then ''space'' else b),
            z_spawn = spawn, z_exit = Some exit, enemySpawns = enemySp, eliteSpawns = eliteSp,
            obstacles = obs, decorations = decs, z_parallax = par \<rparr>, s10))"

text \<open>
  \<^verbatim>\<open>MapGenerator.generate\<close>: \<^verbatim>\<open>const rng = new SeededRandom(zoneSeed)\<close>, then the body.
\<close>

definition generate ::
  "'s seeded_random \<Rightarrow> tuning \<Rightarrow> packs_data option \<Rightarrow> act_config \<Rightarrow> 32 word \<Rightarrow> gen_options \<Rightarrow> zone" where
  "generate R tune packs actConfig zoneSeed options =
     fst (generateFrom R tune packs actConfig zoneSeed options (fromSeed R zoneSeed))"

section \<open>Enemies.js\<close>

datatype ai_state = Patrol | Aggro | Return

record repair_cfg =
  rep_range :: real
  healPctMaxHpPerSec :: real
  capPctMaxHpPerSec :: real

text \<open>
  The fields of an enemy object that the exploration AI, the repair drone and the zone's
  despawn checks read or write.  \<open>aiState\<close> is the state after the lazy initialisation
  of \<^verbatim>\<open>updateExplorationAI\<close> (a missing state is \<^verbatim>\<open>'patrol'\<close>), and so are the home and
  the ranges, which \<^verbatim>\<open>World.spawnEnemy\<close> sets before the first update; \<open>abilities\<close> is the
  ability list; \<open>repair\<close>, \<open>orbit_t\<close>, \<open>orbit_radius\<close> and \<open>tether_targetId\<close> are the
  objects \<^verbatim>\<open>e.repair\<close>, \<^verbatim>\<open>e.orbit\<close> and \<^verbatim>\<open>e.tether\<close> of a repair drone.
\<close>

record enemy =
  e_id :: string
  e_x :: real
  e_y :: real
  e_vx :: real
  e_vy :: real
  e_hp :: real
  e_maxHP :: real
  e_speed :: real
  e_size :: real
  isElite :: bool
  isBoss :: bool
  abilities :: "string list"
  e_dead :: bool
  aiState :: ai_state
  homeX :: real
  homeY :: real
  aggroRange :: real
  attackRange :: real
  disengageRange :: real
  leashRange :: real
  returnThreshold :: real
  repair :: "repair_cfg option"
  orbit_t :: real
  orbit_radius :: real
  tether_targetId :: "string option"

record player =
  p_x :: real
  p_y :: real

subsection \<open>State transitions of the exploration AI\<close>

text \<open>
  The block \<^verbatim>\<open>// State transitions\<close> of \<^verbatim>\<open>updateExplorationAI\<close> with the distances it
  is computed from.
\<close>

definition stateTransitions :: "player \<Rightarrow> enemy \<Rightarrow> enemy" where
  "stateTransitions p e =
     (let dxP = p_x p - e_x e;
          dyP = p_y p - e_y e;
          distP = hypot dxP dyP;
          dxH = homeX e - e_x e;
          dyH = homeY e - e_y e;
          distH = hypot dxH dyH
      in
        if distP \<le> aggroRange e then e\<lparr> aiState := Aggro \<rparr>
        else if aiState e = Aggro \<and> (distP > disengageRange e \<or> distH > leashRange e)
          then e\<lparr> aiState := Return \<rparr>
        else if aiState e = Return \<and> distH \<le> returnThreshold e
          then e\<lparr> aiState := Patrol, e_vx := 0, e_vy := 0 \<rparr>
        else e)"


subsection \<open>The repair drone\<close>

definition repairCfgOf :: "enemy \<Rightarrow> repair_cfg" where
  "repairCfgOf e =
     (case repair e of
        None \<Rightarrow> \<lparr> rep_range = 260, healPctMaxHpPerSec = 0.03, capPctMaxHpPerSec = 0.04 \<rparr>
      | Some c \<Rightarrow> c)"

text \<open>
  The target loop \<^verbatim>\<open>for (const other of State.enemies)\<close>: \<open>i\<close> is the index of
  \<open>other\<close>, \<open>best\<close> the index of the best target so far.
\<close>

fun bestTarget :: "enemy \<Rightarrow> enemy list \<Rightarrow> nat \<Rightarrow> nat option \<Rightarrow> real \<Rightarrow> nat option" where
  "bestTarget e [] i best bestScore = best"
| "bestTarget e (other # rest) i best bestScore =
     (if e_dead other \<or> e_id other = e_id e then bestTarget e rest (Suc i) best bestScore
      else if ''repairTether'' \<in> set (abilities other)
        then bestTarget e rest (Suc i) best bestScore
      else
        let dx = e_x other - e_x e;
            dy = e_y other - e_y e;
            d = hypot dx dy
        in
          if d > 650 then bestTarget e rest (Suc i) best bestScore
          else
            let prio = (if isBoss other then 1000 else if isElite other then 200 else 0);
                missing = max 0 (e_maxHP other - e_hp other);
                score = prio + missing - d * 0.25
            in if score > bestScore then bestTarget e rest (Suc i) (Some i) score
               else bestTarget e rest (Suc i) best bestScore)"

text \<open>
  \<^verbatim>\<open>updateRepairDroneAI(e, dt, zone)\<close> for the drone at index \<open>i\<close> of \<^verbatim>\<open>State.enemies\<close>.
  The heal budget \<^verbatim>\<open>this._healBudget\<close> is a map from ids to the healing granted so far
  in this frame; a missing key reads as 0.  The drone and its target are different
  objects of the array, since the target's id differs from the drone's.
\<close>

definition updateRepairDroneAI ::
  "player \<Rightarrow> real \<Rightarrow> nat \<Rightarrow> enemy list \<times> (string \<Rightarrow> real) \<Rightarrow> enemy list \<times> (string \<Rightarrow> real)" where
  "updateRepairDroneAI p dt i st =
     (let es = fst st;
          hb = snd st;
          e = es ! i;
          cfg = repairCfgOf e
      in
      case bestTarget e es 0 None (- 1000000000) of
        Some j \<Rightarrow>
          let best = es ! j;
              t = orbit_t e + dt;
              ang = t * 1.2 + real ((of_char (last (e_id e)) :: nat) mod 6);
              desiredX = e_x best + cos ang * orbit_radius e;
              desiredY = e_y best + sin ang * orbit_radius e;
              dx = desiredX - e_x e;
              dy = desiredY - e_y e;
              dist = (if hypot dx dy = 0 then 1 else hypot dx dy);
              sp = (if e_speed e = 0 then 90 else e_speed e);
              e' = e\<lparr> tether_targetId := Some (e_id best), orbit_t := t,
                     e_vx := (dx / dist) * sp, e_vy := (dy / dist) * sp \<rparr>;
              dToTarget = hypot (e_x best - e_x e) (e_y best - e_y e)
          in
            if dToTarget \<le> rep_range cfg \<and> e_hp best > 0 \<and> e_hp best < e_maxHP best then
              let want = e_maxHP best * healPctMaxHpPerSec cfg * dt;
                  cap = e_maxHP best * capPctMaxHpPerSec cfg * dt;
                  used = hb (e_id best);
                  grant = max 0 (min want (cap - used))
              in
                if grant > 0 then
                  (es[i := e', j := best\<lparr> e_hp := min (e_maxHP best) (e_hp best + grant) \<rparr>],
                   hb(e_id best := used + grant))
                else (es[i := e'], hb)
            else (es[i := e'], hb)
      | None \<Rightarrow>
          let dx = p_x p - e_x e;
              dy = p_y p - e_y e;
              d = (if hypot dx dy = 0 then 1 else hypot dx dy);
              sp = (if e_speed e = 0 then 90 else e_speed e) * 0.4
          in (es[i := e\<lparr> tether_targetId := None, e_vx := (dx / d) * sp,
                          e_vy := (dy / d) * sp \<rparr>], hb))"

subsection \<open>The frame update in exploration mode\<close>

text \<open>
  \<^verbatim>\<open>updateExplorationAI\<close>: a repair drone runs its own AI; every other enemy runs the
  state transitions and then the movement code.  The movement code writes the velocity
  and fields outside \<open>enemy\<close> only, and draws on \<^verbatim>\<open>Math.random\<close>; it is the parameter
  \<open>steer\<close>, which returns the velocity it leaves in the enemy at index \<open>i\<close>.
\<close>

definition updateExplorationAI ::
  "(nat \<Rightarrow> player \<Rightarrow> real \<Rightarrow> enemy \<Rightarrow> real \<times> real) \<Rightarrow> player \<Rightarrow> real \<Rightarrow> nat
     \<Rightarrow> enemy list \<times> (string \<Rightarrow> real) \<Rightarrow> enemy list \<times> (string \<Rightarrow> real)" where
  "updateExplorationAI steer p dt i st =
     (let e = fst st ! i in
      if ''repairTether'' \<in> set (abilities e) then updateRepairDroneAI p dt i st
      else
        let e1 = stateTransitions p e;
            v = steer i p dt e1
        in ((fst st)[i := e1\<lparr> e_vx := fst v, e_vy := snd v \<rparr>], snd st))"

text \<open>
  The body of the loop of \<^verbatim>\<open>Enemies.update\<close> for a zone of the given width and height:
  the AI, the integration of the velocity and the clamp to the zone.  The shooting that
  follows writes timers and pushes enemy bullets, none of which is a field of \<open>enemy\<close>.
\<close>

definition updateEnemy ::
  "(nat \<Rightarrow> player \<Rightarrow> real \<Rightarrow> enemy \<Rightarrow> real \<times> real) \<Rightarrow> player \<Rightarrow> real \<Rightarrow> real \<Rightarrow> real \<Rightarrow> nat
     \<Rightarrow> enemy list \<times> (string \<Rightarrow> real) \<Rightarrow> enemy list \<times> (string \<Rightarrow> real)" where
  "updateEnemy steer p dt zw zh i st =
     (if e_dead (fst st ! i) then st
      else
        let st1 = updateExplorationAI steer p dt i st;
            e = fst st1 ! i;
            x = e_x e + e_vx e * dt;
            y = e_y e + e_vy e * dt;
            margin = max 30 (e_size e * 1.2)
        in ((fst st1)[i := e\<lparr> e_x := max margin (min (zw - margin) x),
                                e_y := max margin (min (zh - margin) y) \<rparr>], snd st1))"

text \<open>\<^verbatim>\<open>for (const e of State.enemies)\<close>, from index \<open>i\<close>, with \<open>n\<close> entries to go.\<close>

fun updateLoop ::
  "(nat \<Rightarrow> enemy list \<times> (string \<Rightarrow> real) \<Rightarrow> enemy list \<times> (string \<Rightarrow> real)) \<Rightarrow> nat \<Rightarrow> nat
     \<Rightarrow> enemy list \<times> (string \<Rightarrow> real) \<Rightarrow> enemy list \<times> (string \<Rightarrow> real)" where
  "updateLoop body 0 i st = st"
| "updateLoop body (Suc n) i st = updateLoop body n (Suc i) (body i st)"

text \<open>
  \<^verbatim>\<open>Enemies.update(dt, canvas)\<close> outside wave mode, with a current zone: a fresh heal
  budget, the loop, and then the removal of dead enemies.  \<open>update_frame\<close> is the array
  when the loop ends, before the removal.
\<close>

definition update_frame ::
  "(nat \<Rightarrow> player \<Rightarrow> real \<Rightarrow> enemy \<Rightarrow> real \<times> real) \<Rightarrow> player \<Rightarrow> real \<Rightarrow> real \<Rightarrow> real
     \<Rightarrow> enemy list \<Rightarrow> enemy list" where
  "update_frame steer p dt zw zh es =
     fst (updateLoop (updateEnemy steer p dt zw zh) (length es) 0 (es, \<lambda>_. 0))"

definition Enemies_update ::
  "(nat \<Rightarrow> player \<Rightarrow> real \<Rightarrow> enemy \<Rightarrow> real \<times> real) \<Rightarrow> player \<Rightarrow> real \<Rightarrow> real \<Rightarrow> real
     \<Rightarrow> enemy list \<Rightarrow> enemy list" where
  "Enemies_update steer p dt zw zh es = filter (\<lambda>e. \<not> e_dead e) (update_frame steer p dt zw zh es)"

subsection \<open>The movement code of the exploration AI\<close>

text \<open>
  The fields of an enemy object that only the movement code of \<^verbatim>\<open>updateExplorationAI\<close>
  reads or writes, after its lazy initialisation; \<open>wanderTarget\<close> is \<open>None\<close> for
  \<^verbatim>\<open>null\<close>.
\<close>

record motion =
  patrol :: string
  patrolRadius :: real
  patrolAngle :: real
  patrolDir :: real
  patrolTimer :: real
  wanderTarget :: "point option"
  wanderTimer :: real





section \<open>World.js\<close>




text \<open>
  The state the spawn checks change: \<^verbatim>\<open>State.enemies\<close>, and a log of every enemy
  spliced out of it, as it was at that moment, with the descriptor it belonged to.  The
  log is not in the source; it records the removals for the statement of the property.
\<close>

record live =
  live_enemies :: "enemy list"
  despawned :: "(enemy \<times> spawn_desc) list"




text \<open>
  \<^verbatim>\<open>World.spawnEnemy(spawn, isElite)\<close>.  \<^verbatim>\<open>Enemies.spawn\<close> builds the enemy from the
  enemy data, the clock and \<^verbatim>\<open>Math.random\<close> and pushes it; it is the parameter
  \<open>create\<close>, which returns the object for a descriptor, the elite flag, the boss flag and
  the enemies alive, with its statistics already scaled to the level.  The fields below
  are the ones \<^verbatim>\<open>Enemies.spawn\<close> and \<^verbatim>\<open>spawnEnemy\<close> then set from the descriptor.
\<close>

definition spawnEnemy ::
  "(spawn_desc \<Rightarrow> bool \<Rightarrow> bool \<Rightarrow> enemy list \<Rightarrow> enemy) \<Rightarrow> tuning \<Rightarrow> bool \<Rightarrow> spawn_desc \<Rightarrow> live
     \<Rightarrow> spawn_desc \<times> live" where
  "spawnEnemy create tune elite spawn ws =
     (let aggroMult = num_or (enemyAggroRangeMult tune) 1.0;
          e0 = create spawn elite False (live_enemies ws);
          patrolRadius = falsy_or (sd_patrolRadius spawn) (if elite then 140 else 110);
          baseAggro = (if elite then 420 else 340);
          aggro = baseAggro * aggroMult;
          e = e0\<lparr> e_x := sd_x spawn, e_y := sd_y spawn, e_vx := 0, e_vy := 0,
                  isElite := elite, isBoss := False, e_dead := False,
                  homeX := sd_x spawn, homeY := sd_y spawn, aiState := Patrol,
                  aggroRange := aggro, attackRange := aggro, disengageRange := aggro * 1.65,
                  leashRange := max (aggro * 2.2) (of_int patrolRadius * 5),
                  returnThreshold := max 40 (e_size e0 * 1.2) \<rparr>
      in (spawn\<lparr> sd_active := True, sd_enemyId := Some (e_id e) \<rparr>,
          ws\<lparr> live_enemies := live_enemies ws @ [e] \<rparr>))"








text \<open>
  A portal of the current zone, and the keys of \<^verbatim>\<open>State.input\<close> that the portal check
  reads (a missing input object reads as both keys off).
\<close>

record portal =
  po_x :: real
  po_y :: real
  destination :: "string option"
  allowHub :: bool


text \<open>
  The \<^verbatim>\<open>World\<close> object: the current zone, with the two fields of the zone object that
  the spawn checks of a boss arena and the portal check read, the zone index, and the
  portal in reach.
\<close>

record world =
  currentZone :: zone
  bossSpawn :: "spawn_desc option"
  portals :: "portal list"
  zoneIndex :: nat
  nearPortal :: "portal option"

text \<open>
  \<^verbatim>\<open>loadZone(index)\<close> on the world, \<^verbatim>\<open>State.enemies\<close> with its log, and the player.  The
  call first empties \<^verbatim>\<open>State.enemies\<close> (and the bullets, pickups and particles).  The
  choice of the theme and of the modifiers and the generation of the zone by
  \<^verbatim>\<open>MapGenerator\<close> are the parameter \<open>g\<close>, which returns the zone and its boss descriptor
  for an index, or \<open>None\<close> when the act is not found and \<^verbatim>\<open>loadZone\<close> returns early.  A
  generated zone has no portals, and the player is put on its spawn point.
\<close>

definition loadZone ::
  "(nat \<Rightarrow> (zone \<times> spawn_desc option) option) \<Rightarrow> nat \<Rightarrow> world \<times> live \<times> player
     \<Rightarrow> world \<times> live \<times> player" where
  "loadZone g index st =
     (case st of (w, ws, pl) \<Rightarrow>
        let ws1 = ws\<lparr> live_enemies := [] \<rparr> in
        case g index of
          None \<Rightarrow> (w, ws1, pl)
        | Some (z, boss) \<Rightarrow>
            (w\<lparr> currentZone := z, bossSpawn := boss, portals := [], zoneIndex := index \<rparr>, ws1,
             pl\<lparr> p_x := pt_x (z_spawn z), p_y := pt_y (z_spawn z) \<rparr>))"

text \<open>
  \<^verbatim>\<open>init(startThemeId)\<close> as \<^verbatim>\<open>usePortal\<close> calls it: with no theme configured it returns
  at once, otherwise it starts a run on the act and loads its first zone.  \<open>themes\<close>
  tells whether the theme pool is non-empty; \<open>gen (Some act)\<close> generates the zones of the
  run started on \<open>act\<close>, \<open>gen None\<close> those of the current run.
\<close>

definition init ::
  "(string option \<Rightarrow> nat \<Rightarrow> (zone \<times> spawn_desc option) option) \<Rightarrow> bool \<Rightarrow> string
     \<Rightarrow> world \<times> live \<times> player \<Rightarrow> world \<times> live \<times> player" where
  "init gen themes act st =
     (if \<not> themes then st
      else case st of (w, ws, pl) \<Rightarrow> loadZone (gen (Some act)) 0 (w\<lparr> zoneIndex := 0 \<rparr>, ws, pl))"








section \<open>Invariants.js: entity caps (soft fuse)\<close>

datatype inv_error =
    INV_NON_FINITE string
  | INV_NULL string
  | INV_CAP_EXCEEDED string nat nat

text \<open>A line written by \<^verbatim>\<open>console.warn\<close>: label, cap and number of trimmed entries.\<close>

datatype warning = SoftFuse string nat nat

record cap_table =
  cap_bullets :: nat
  cap_enemyBullets :: nat
  cap_enemies :: nat
  cap_pickups :: nat
  cap_particles :: nat

definition DEFAULT_CAPS :: cap_table where
  "DEFAULT_CAPS = \<lparr> cap_bullets = 2000, cap_enemyBullets = 2000, cap_enemies = 900,
     cap_pickups = 700, cap_particles = 6500 \<rparr>"

record invariants =
  enabled :: bool
  hardThrowOnNonFinite :: bool
  softFuseOnCaps :: bool
  sampleEntitiesPerFrame :: int
  caps :: cap_table

text \<open>The object literal \<^verbatim>\<open>Invariants\<close> as the module exports it.\<close>

definition Invariants :: invariants where
  "Invariants = \<lparr> enabled = True, hardThrowOnNonFinite = True, softFuseOnCaps = True,
     sampleEntitiesPerFrame = 12, caps = DEFAULT_CAPS \<rparr>"

text \<open>
  The five tracked collections of \<^verbatim>\<open>State\<close>.  Arrays are lists in push order: the
  head is the oldest entry.
\<close>

record 'a tracked =
  bullets :: "'a list"
  enemyBullets :: "'a list"
  enemies :: "'a list"
  pickups :: "'a list"
  particles :: "'a list"

text \<open>
  \<^verbatim>\<open>capArray(arr, max, label)\<close>: the array after the call, the warnings written and the
  error thrown, if any.  \<^verbatim>\<open>arr.splice(0, overflow)\<close> is \<^term>\<open>drop overflow arr\<close>; the
  splice happens before the branch on \<^verbatim>\<open>softFuseOnCaps\<close>, so the array is trimmed in
  the throwing branch too.
\<close>

definition capArray ::
  "invariants \<Rightarrow> 'a list \<Rightarrow> nat \<Rightarrow> string \<Rightarrow> 'a list \<times> warning list \<times> inv_error option" where
  "capArray iv arr mx label =
     (if length arr \<le> mx then (arr, [], None)
      else
        let overflow = length arr - mx;
            arr' = drop overflow arr
        in if softFuseOnCaps iv then (arr', [SoftFuse label mx overflow], None)
           else (arr', [], Some (INV_CAP_EXCEEDED label mx (length arr' + overflow))))"

text \<open>
  \<^verbatim>\<open>postFrame\<close>.  The five \<^verbatim>\<open>capArray\<close> calls run in the order of the source and a
  throw leaves the later collections untouched.  The assertions that follow the caps
  (\<^verbatim>\<open>assertFiniteNumber\<close> on the player, \<^verbatim>\<open>sampleEntityArrays\<close>) only read the state;
  they are the parameter \<open>checks\<close>, which returns the error they throw.
\<close>

definition postFrame ::
  "invariants \<Rightarrow> ('a tracked \<Rightarrow> inv_error option) \<Rightarrow> 'a tracked
     \<Rightarrow> 'a tracked \<times> warning list \<times> inv_error option" where
  "postFrame iv checks st =
     (if \<not> enabled iv then (st, [], None)
      else case capArray iv (bullets st) (cap_bullets (caps iv)) ''State.bullets'' of
        (a1, w1, Some e) \<Rightarrow> (st\<lparr>bullets := a1\<rparr>, w1, Some e)
      | (a1, w1, None) \<Rightarrow>
      (let st1 = st\<lparr>bullets := a1\<rparr> in
       case capArray iv (enemyBullets st1) (cap_enemyBullets (caps iv)) ''State.enemyBullets'' of
        (a2, w2, Some e) \<Rightarrow> (st1\<lparr>enemyBullets := a2\<rparr>, w1 @ w2, Some e)
      | (a2, w2, None) \<Rightarrow>
      (let st2 = st1\<lparr>enemyBullets := a2\<rparr> in
       case capArray iv (enemies st2) (cap_enemies (caps iv)) ''State.enemies'' of
        (a3, w3, Some e) \<Rightarrow> (st2\<lparr>enemies := a3\<rparr>, w1 @ w2 @ w3, Some e)
      | (a3, w3, None) \<Rightarrow>
      (let st3 = st2\<lparr>enemies := a3\<rparr> in
       case capArray iv (pickups st3) (cap_pickups (caps iv)) ''State.pickups'' of
        (a4, w4, Some e) \<Rightarrow> (st3\<lparr>pickups := a4\<rparr>, w1 @ w2 @ w3 @ w4, Some e)
      | (a4, w4, None) \<Rightarrow>
      (let st4 = st3\<lparr>pickups := a4\<rparr> in
       case capArray iv (particles st4) (cap_particles (caps iv)) ''State.particles'' of
        (a5, w5, Some e) \<Rightarrow> (st4\<lparr>particles := a5\<rparr>, w1 @ w2 @ w3 @ w4 @ w5, Some e)
      | (a5, w5, None) \<Rightarrow>
      (let st5 = st4\<lparr>particles := a5\<rparr> in
       (st5, w1 @ w2 @ w3 @ w4 @ w5, checks st5)))))))"

text \<open>The oldest-first trim: the last \<open>mx\<close> entries of \<open>arr\<close>, in order.\<close>

definition newest :: "nat \<Rightarrow> 'a list \<Rightarrow> 'a list" where
  "newest mx arr = drop (length arr - mx) arr"

section \<open>Inputs for the examples\<close>

text \<open>
  A generator for concrete runs: whatever the seed, it returns the listed floats in turn
  and zero from then on.
\<close>

definition scripted :: "real list \<Rightarrow> real list seeded_random" where
  "scripted us =
     \<lparr> fromSeed = (\<lambda>_. us),
       nextFloat = (\<lambda>s. case s of [] \<Rightarrow> (0, []) | u # s' \<Rightarrow> (u, s')) \<rparr>"

text \<open>An act with every key missing, and a square act of a fixed side.\<close>

definition plain_act :: act_config where
  "plain_act = \<lparr> act_generation = None, act_biome = Some ''space'', act_pool = None,
     act_elitePool = None, act_parallax = None \<rparr>"

definition square_act :: "real \<Rightarrow> act_config" where
  "square_act side =
     plain_act\<lparr> act_generation := Some (no_gen_cfg\<lparr> g_width := DimNum side, g_height := DimNum side \<rparr>) \<rparr>"

definition depth1 :: gen_options where
  "depth1 = \<lparr> opt_depth = Some 1, opt_mods = None \<rparr>"

text \<open>A tuning object that only caps the two star layers at one star each.\<close>

definition small_sky :: tuning where
  "small_sky = no_tuning\<lparr> maxStarsBackground := Some 1, maxStarsMidground := Some 1 \<rparr>"

text \<open>A spawn descriptor as \<^verbatim>\<open>generateEnemySpawns\<close> pushes it.\<close>

definition single :: "real \<Rightarrow> real \<Rightarrow> spawn_desc" where
  "single x y = \<lparr> sd_x = x, sd_y = y, sd_type = Some ''grunt'', sd_patrol = Some ''circle'',
     sd_patrolRadius = Some 100, sd_active = False, sd_killed = False, sd_enemyId = None,
     sd_packId = None \<rparr>"

definition three_singles :: "spawn_desc list" where
  "three_singles = [single 400 1000, single 1000 1000, single 1600 1000]"

definition south :: point where
  "south = \<lparr> pt_x = 1000, pt_y = 1900 \<rparr>"

definition north :: point where
  "north = \<lparr> pt_x = 1000, pt_y = 100 \<rparr>"

text \<open>
  Pack data with one template of explicit composition, four grunts, and a pack-formation
  chance of 1; every other setting is left to its default.
\<close>

definition squad :: pack_template where
  "squad = \<lparr> tpl_id = Some ''squad'', tpl_weight = None,
     tpl_members = [\<lparr> pm_type = Some ''grunt'', pm_min = Some 4, pm_max = Some 4 \<rparr>],
     tpl_types = [] \<rparr>"

definition squad_of_four :: packs_data where
  "squad_of_four =
     \<lparr> templates = [squad], packChance = Some 1, packSizeMin = None, packSizeMax = None,
       maxPacksPerZone = None, memberSpacing = None, minDistFromSpawn = None,
       minDistFromExit = None \<rparr>"

text \<open>
  A run of \<^verbatim>\<open>generate\<close> that forms one pack: a 2000 by 2000 act, at most three enemy
  spawns, and pack data with one template of free composition and default settings.  The
  floats, in the order drawn: edge pick and offset of the spawn point; ten draws for two
  stars; the exit offset; three accepted candidates with type, patrol and radius; the two
  draws of the shuffle; the pack chance, the template pick and the size; angle, distance
  and type for each of three members.
\<close>

definition wolfpack :: packs_data where
  "wolfpack =
     \<lparr> templates = [\<lparr> tpl_id = Some ''wolfpack'', tpl_weight = None, tpl_members = [],
                      tpl_types = [''grunt''] \<rparr>],
       packChance = None, packSizeMin = None, packSizeMax = None, maxPacksPerZone = None,
       memberSpacing = None, minDistFromSpawn = None, minDistFromExit = None \<rparr>"

definition three_enemies :: tuning where
  "three_enemies = small_sky\<lparr> maxEnemySpawnsPerZone := Some 3 \<rparr>"

definition pack_script :: "real list" where
  "pack_script =
     [0.1, 0.5,
      0.1, 0.2, 0.3, 0.4, 0.5, 0.6, 0.7, 0.8, 0.9, 0.1,
      0.5,
      0.5, 0.5, 0, 0.3, 0.5,
      1 / 6, 0.5, 0, 0.3, 0.5,
      5 / 6, 0.5, 0, 0.3, 0.5,
      0.7, 0.2,
      0.3, 0.5, 0,
      0, 0, 0,
      0, 0.5, 0,
      0, 0.9, 0]"

definition pack_run :: "packs_data option \<Rightarrow> zone" where
  "pack_run packs = generate (scripted pack_script) three_enemies packs (square_act 2000) 42 depth1"

definition member :: "real \<Rightarrow> real \<Rightarrow> spawn_desc" where
  "member x y = (single x y)\<lparr> sd_packId := Some ''wolfpack'' \<rparr>"

text \<open>
  A regular enemy with the ranges \<^verbatim>\<open>World.spawnEnemy\<close> gives it at the default tuning
  (aggro 340, disengage 561, leash 748, return threshold 40), its home at the origin.
\<close>

definition grunt_at :: "ai_state \<Rightarrow> real \<Rightarrow> real \<Rightarrow> enemy" where
  "grunt_at st x y =
     \<lparr> e_id = ''e_1'', e_x = x, e_y = y, e_vx = 30, e_vy = 40, e_hp = 20, e_maxHP = 20,
       e_speed = 80, e_size = 22, isElite = False, isBoss = False, abilities = [],
       e_dead = False, aiState = st, homeX = 0, homeY = 0, aggroRange = 340, attackRange = 340,
       disengageRange = 561, leashRange = 748, returnThreshold = 40, repair = None,
       orbit_t = 0, orbit_radius = 0, tether_targetId = None \<rparr>"




text \<open>
  A frame with one hurt ally and two repair drones beside it, the player far away, and a
  movement code that leaves every enemy at rest.
\<close>

definition hurt_ally :: enemy where
  "hurt_ally =
     (grunt_at Patrol 500 500)\<lparr> e_id := ''e_7'', e_hp := 10, e_maxHP := 100, e_vx := 0, e_vy := 0 \<rparr>"

definition drone :: "string \<Rightarrow> enemy" where
  "drone i = (grunt_at Patrol 500 500)\<lparr> e_id := i, abilities := [''repairTether''] \<rparr>"

definition hold :: "nat \<Rightarrow> player \<Rightarrow> real \<Rightarrow> enemy \<Rightarrow> real \<times> real" where
  "hold i p dt e = (0, 0)"

definition far_player :: player where
  "far_player = \<lparr> p_x = 2000, p_y = 2000 \<rparr>"











text \<open>A cap of two for every collection.\<close>

definition tight_caps :: cap_table where
  "tight_caps = \<lparr> cap_bullets = 2, cap_enemyBullets = 2, cap_enemies = 2, cap_pickups = 2,
     cap_particles = 2 \<rparr>"

section \<open>Properties of a zone\<close>

text \<open>
  The spacing of a list of spawn descriptors: every descriptor at least \<open>d\<close> from a
  point, and every descriptor at least \<open>d\<close> from every descriptor before it in the list.
\<close>

definition away_from :: "real \<Rightarrow> point \<Rightarrow> spawn_desc list \<Rightarrow> bool" where
  "away_from d p sps = (\<forall>q \<in> set sps. d \<le> hypot (sd_x q - pt_x p) (sd_y q - pt_y p))"

fun spaced_apart :: "real \<Rightarrow> spawn_desc list \<Rightarrow> bool" where
  "spaced_apart d [] = True"
| "spaced_apart d (p # ps) =
     ((\<forall>q \<in> set ps. d \<le> hypot (sd_x q - sd_x p) (sd_y q - sd_y p)) \<and> spaced_apart d ps)"

text \<open>The three minimum distances of \<^verbatim>\<open>generateEnemySpawns\<close>, with their defaults.\<close>

definition enemy_spacing :: "tuning \<Rightarrow> point \<Rightarrow> point \<Rightarrow> spawn_desc list \<Rightarrow> bool" where
  "enemy_spacing tune spawn exit sps =
     (away_from (num_or (enemySpawnMinDistFromSpawn tune) 300) spawn sps
    \<and> away_from (num_or (enemySpawnMinDistFromExit tune) 200) exit sps
    \<and> spaced_apart (num_or (enemySpawnMinDistBetween tune) 150) sps)"

section \<open>Properties of a frame\<close>

text \<open>
  The invariant of the loop of \<^verbatim>\<open>Enemies.update\<close> for a shared cap \<open>c\<close>: against the
  array \<open>es0\<close> at the start of the frame, every enemy keeps its id, its maximum health,
  its abilities and its repair settings; the health it gained is at most what the heal
  budget records under its id and at most \<open>maxHP * c * dt\<close>; and its health stays at most
  its maximum if it started so.
\<close>

definition same_core :: "enemy \<Rightarrow> enemy \<Rightarrow> bool" where
  "same_core a b =
     (e_id b = e_id a \<and> e_maxHP b = e_maxHP a \<and> abilities b = abilities a
      \<and> repair b = repair a \<and> e_hp b = e_hp a)"

definition heal_inv :: "real \<Rightarrow> real \<Rightarrow> enemy list \<Rightarrow> enemy list \<times> (string \<Rightarrow> real) \<Rightarrow> bool" where
  "heal_inv c dt es0 st =
     (length (fst st) = length es0
      \<and> (\<forall>j < length es0.
            e_id (fst st ! j) = e_id (es0 ! j)
          \<and> e_maxHP (fst st ! j) = e_maxHP (es0 ! j)
          \<and> abilities (fst st ! j) = abilities (es0 ! j)
          \<and> repair (fst st ! j) = repair (es0 ! j)
          \<and> e_hp (fst st ! j) - e_hp (es0 ! j) \<le> snd st (e_id (es0 ! j))
          \<and> e_hp (fst st ! j) - e_hp (es0 ! j) \<le> e_maxHP (es0 ! j) * c * dt
          \<and> (e_hp (es0 ! j) \<le> e_maxHP (es0 ! j) \<longrightarrow> e_hp (fst st ! j) \<le> e_maxHP (es0 ! j))))"

section \<open>Properties of the spawn checks\<close>







section \<open>Properties\<close>

subsection \<open>MapGenerator.js: counts\<close>

lemma length_for_push: "length (fst (for_push n body s)) = n"
  by (induction n arbitrary: s) (simp_all add: case_prod_beta)

lemma length_generateEliteSpawns:
  "length (fst (generateEliteSpawns R tune pool density w h s))
     = nat (max 1 (min \<lfloor>w * h * density\<rfloor> (num_or (maxEliteSpawnsPerZone tune) 8)))"
  by (simp add: generateEliteSpawns_def Let_def length_for_push)

lemma length_generateObstacles:
  "length (fst (generateObstacles R tune density w h depth mods s))
     = nat (min \<lfloor>w * h * density\<rfloor> (num_or (maxObstaclesPerZone tune) 2500))"
  by (simp add: generateObstacles_def Let_def length_for_push)

lemma length_generateDecorations:
  "length (fst (generateDecorations R tune biome w h s))
     = nat (min \<lfloor>w * h * 0.001\<rfloor> (num_or (maxDecorationsPerZone tune) 6000))"
  by (simp add: generateDecorations_def Let_def length_for_push)

lemma cap_floor_one: "int (nat (max 1 (min a c))) \<le> max 1 c"
  by (simp add: max_def min_def)

lemma cap_floor_zero: "int (nat (min a c)) \<le> max 0 c"
  by (simp add: max_def min_def)

lemma one_le_floor_one: "1 \<le> nat (max 1 (a :: int))"
  by linarith

text \<open>Each list of the zone is the result of its generator, run on the zone's dimensions.\<close>

lemma eliteSpawns_generate:
  "\<exists>pool density s. eliteSpawns (generate R tune packs act seed opts) =
     fst (generateEliteSpawns R tune pool density
       (z_width (generate R tune packs act seed opts))
       (z_height (generate R tune packs act seed opts)) s)"
  unfolding generate_def generateFrom_def Let_def case_prod_beta
  by (simp del: split_paired_Ex) (intro exI, rule refl)

lemma obstacles_generate:
  "\<exists>density depth mods s. obstacles (generate R tune packs act seed opts) =
     fst (generateObstacles R tune density
       (z_width (generate R tune packs act seed opts))
       (z_height (generate R tune packs act seed opts)) depth mods s)"
  unfolding generate_def generateFrom_def Let_def case_prod_beta
  by (simp del: split_paired_Ex) (intro exI, rule refl)

lemma decorations_generate:
  "\<exists>s. decorations (generate R tune packs act seed opts) =
     fst (generateDecorations R tune (act_biome act)
       (z_width (generate R tune packs act seed opts))
       (z_height (generate R tune packs act seed opts)) s)"
  unfolding generate_def generateFrom_def Let_def case_prod_beta
  by (simp del: split_paired_Ex) (intro exI, rule refl)

lemma enemySpawns_generate:
  "\<exists>pool density s s'. enemySpawns (generate R tune packs act seed opts) =
     fst (applyPackDirector R packs
       (fst (generateEnemySpawns R tune pool density
          (z_width (generate R tune packs act seed opts))
          (z_height (generate R tune packs act seed opts))
          (z_spawn (generate R tune packs act seed opts))
          (the (z_exit (generate R tune packs act seed opts))) s))
       pool
       (z_spawn (generate R tune packs act seed opts))
       (the (z_exit (generate R tune packs act seed opts))) s')"
  unfolding generate_def generateFrom_def Let_def case_prod_beta
  by (simp del: split_paired_Ex) (intro exI, rule refl)

lemma length_enemySpawnLoop:
  "length spawns \<le> count \<Longrightarrow> (\<And>sp s. length (fst (attempt sp s)) \<le> Suc (length sp)) \<Longrightarrow>
   length (fst (enemySpawnLoop n count attempt spawns s)) \<le> count"
proof (induction n arbitrary: spawns s)
  case 0
  then show ?case by simp
next
  case (Suc n)
  show ?case
  proof (cases "length spawns < count")
    case True
    have "length (fst (attempt spawns s)) \<le> count"
      using Suc.prems(2) [of spawns s] True by simp
    from Suc.IH [OF this Suc.prems(2)] True show ?thesis
      by (simp add: case_prod_beta)
  next
    case False
    with Suc.prems(1) show ?thesis by simp
  qed
qed

lemma length_enemySpawnTry:
  "length (fst (enemySpawnTry R pool w h spawn exit a b c sp s)) \<le> Suc (length sp)"
  by (simp add: enemySpawnTry_def Let_def case_prod_beta)

lemma length_generateEnemySpawns:
  "int (length (fst (generateEnemySpawns R tune pool density w h spawn exit s)))
     \<le> max 0 (num_or (maxEnemySpawnsPerZone tune) 120)"
proof -
  let ?count = "max 0 (min \<lfloor>w * h * density\<rfloor> (num_or (maxEnemySpawnsPerZone tune) 120))"
  have "length (fst (generateEnemySpawns R tune pool density w h spawn exit s)) \<le> nat ?count"
    unfolding generateEnemySpawns_def Let_def
    by (rule length_enemySpawnLoop) (simp_all add: length_enemySpawnTry)
  then show ?thesis by linarith
qed

text \<open>
  Claim C10.  \<^verbatim>\<open>generateEliteSpawns\<close> returns \<open>max 1 (min countRaw maxElites)\<close>
  descriptors, which is at least one whatever the density and the cap, and the
  \<^verbatim>\<open>eliteSpawns\<close> of every zone that \<^verbatim>\<open>generate\<close> returns has at least one descriptor.
\<close>

theorem elite_floor_of_one:
  "length (fst (generateEliteSpawns R tune pool density w h s))
     = nat (max 1 (min \<lfloor>w * h * density\<rfloor> (num_or (maxEliteSpawnsPerZone tune) 8)))
   \<and> 1 \<le> length (fst (generateEliteSpawns R tune pool density w h s))
   \<and> 1 \<le> length (eliteSpawns (generate R tune packs act seed opts))"
proof -
  obtain pool' density' s' where
    "eliteSpawns (generate R tune packs act seed opts) =
       fst (generateEliteSpawns R tune pool' density'
         (z_width (generate R tune packs act seed opts))
         (z_height (generate R tune packs act seed opts)) s')"
    using eliteSpawns_generate [of R tune packs act seed opts] by blast
  then show ?thesis
    by (simp only: length_generateEliteSpawns one_le_floor_one simp_thms)
qed

text \<open>
  Claim C3, as amended.  In every zone that \<^verbatim>\<open>generate\<close> returns, the elite descriptors
  number at most \<open>max 1 maxEliteSpawnsPerZone\<close> (there is a floor of one elite), the
  obstacles at most \<open>maxObstaclesPerZone\<close> and the decorations at most
  \<open>maxDecorationsPerZone\<close> (none when the cap is negative); the list of enemy descriptors
  that \<^verbatim>\<open>generateEnemySpawns\<close> builds and \<^verbatim>\<open>generate\<close> hands to the pack director has
  at most \<open>max 0 maxEnemySpawnsPerZone\<close> entries, and it is the zone's \<^verbatim>\<open>enemySpawns\<close>
  when no pack data is loaded.  Missing caps default to 8, 2500, 6000 and 120.
\<close>

theorem generate_within_caps:
  "(let z = generate R tune packs act seed opts in
      int (length (eliteSpawns z)) \<le> max 1 (num_or (maxEliteSpawnsPerZone tune) 8)
    \<and> int (length (obstacles z)) \<le> max 0 (num_or (maxObstaclesPerZone tune) 2500)
    \<and> int (length (decorations z)) \<le> max 0 (num_or (maxDecorationsPerZone tune) 6000)
    \<and> (\<exists>singles pool s.
          enemySpawns z = fst (applyPackDirector R packs singles pool (z_spawn z) (the (z_exit z)) s)
        \<and> int (length singles) \<le> max 0 (num_or (maxEnemySpawnsPerZone tune) 120))
    \<and> (packs = None \<longrightarrow>
          int (length (enemySpawns z)) \<le> max 0 (num_or (maxEnemySpawnsPerZone tune) 120)))"
proof -
  let ?z = "generate R tune packs act seed opts"
  obtain pool1 density1 s1 where
    "eliteSpawns ?z = fst (generateEliteSpawns R tune pool1 density1 (z_width ?z) (z_height ?z) s1)"
    using eliteSpawns_generate [of R tune packs act seed opts] by blast
  then have elite: "int (length (eliteSpawns ?z)) \<le> max 1 (num_or (maxEliteSpawnsPerZone tune) 8)"
    by (simp only: length_generateEliteSpawns cap_floor_one)
  obtain density2 depth2 mods2 s2 where
    "obstacles ?z =
       fst (generateObstacles R tune density2 (z_width ?z) (z_height ?z) depth2 mods2 s2)"
    using obstacles_generate [of R tune packs act seed opts] by blast
  then have obs: "int (length (obstacles ?z)) \<le> max 0 (num_or (maxObstaclesPerZone tune) 2500)"
    by (simp only: length_generateObstacles cap_floor_zero)
  obtain s3 where
    "decorations ?z = fst (generateDecorations R tune (act_biome act) (z_width ?z) (z_height ?z) s3)"
    using decorations_generate [of R tune packs act seed opts] by blast
  then have decs:
    "int (length (decorations ?z)) \<le> max 0 (num_or (maxDecorationsPerZone tune) 6000)"
    by (simp only: length_generateDecorations cap_floor_zero)
  obtain pool4 density4 s4 s4' where en:
    "enemySpawns ?z =
       fst (applyPackDirector R packs
         (fst (generateEnemySpawns R tune pool4 density4 (z_width ?z) (z_height ?z)
            (z_spawn ?z) (the (z_exit ?z)) s4))
         pool4 (z_spawn ?z) (the (z_exit ?z)) s4')"
    using enemySpawns_generate [of R tune packs act seed opts] by blast
  let ?singles = "fst (generateEnemySpawns R tune pool4 density4 (z_width ?z) (z_height ?z)
            (z_spawn ?z) (the (z_exit ?z)) s4)"
  have len: "int (length ?singles) \<le> max 0 (num_or (maxEnemySpawnsPerZone tune) 120)"
    by (rule length_generateEnemySpawns)
  have handed: "\<exists>singles pool s.
          enemySpawns ?z = fst (applyPackDirector R packs singles pool (z_spawn ?z) (the (z_exit ?z)) s)
        \<and> int (length singles) \<le> max 0 (num_or (maxEnemySpawnsPerZone tune) 120)"
    using en len by blast
  have nopack: "packs = None \<longrightarrow>
          int (length (enemySpawns ?z)) \<le> max 0 (num_or (maxEnemySpawnsPerZone tune) 120)"
  proof
    assume p: "packs = None"
    have "fst (applyPackDirector R packs ?singles pool4 (z_spawn ?z) (the (z_exit ?z)) s4') = ?singles"
      unfolding p by (simp add: applyPackDirector_def)
    with en have "enemySpawns ?z = ?singles" by (simp only:)
    with len show "int (length (enemySpawns ?z)) \<le> max 0 (num_or (maxEnemySpawnsPerZone tune) 120)"
      by (simp only:)
  qed
  from elite obs decs handed nopack show ?thesis
    unfolding Let_def by blast
qed

text \<open>
  The theorem at the default configuration: no tuning object, no pack data, an act with
  every key missing, seed 42, depth 1.
\<close>

theorem generate_within_caps_witness:
  "int (length (eliteSpawns (generate (scripted []) no_tuning None plain_act 42 depth1))) \<le> 8
   \<and> int (length (obstacles (generate (scripted []) no_tuning None plain_act 42 depth1))) \<le> 2500
   \<and> int (length (decorations (generate (scripted []) no_tuning None plain_act 42 depth1))) \<le> 6000
   \<and> int (length (enemySpawns (generate (scripted []) no_tuning None plain_act 42 depth1))) \<le> 120"
  using generate_within_caps [of "scripted []" no_tuning None plain_act 42 depth1]
  by (simp add: Let_def no_tuning_def num_or_def)

text \<open>
  Claim C3 as stated fails for the elites: with \<^verbatim>\<open>maxEliteSpawnsPerZone\<close> configured as
  0 the zone still has one elite descriptor.
\<close>

theorem elite_cap_zero_counterexample:
  "maxEliteSpawnsPerZone (no_tuning\<lparr> maxEliteSpawnsPerZone := Some 0 \<rparr>) = Some 0
   \<and> length (eliteSpawns
        (generate (scripted []) (no_tuning\<lparr> maxEliteSpawnsPerZone := Some 0 \<rparr>) None plain_act 42
           depth1)) = 1"
proof -
  let ?tune = "no_tuning\<lparr> maxEliteSpawnsPerZone := Some 0 \<rparr>"
  let ?z = "generate (scripted []) ?tune None plain_act 42 depth1"
  obtain pool1 density1 s1 where
    "eliteSpawns ?z =
       fst (generateEliteSpawns (scripted []) ?tune pool1 density1 (z_width ?z) (z_height ?z) s1)"
    using eliteSpawns_generate [of "scripted []" ?tune None plain_act 42 depth1] by blast
  then have "length (eliteSpawns ?z) = nat (max 1 (min \<lfloor>z_width ?z * z_height ?z * density1\<rfloor> 0))"
    by (simp add: length_generateEliteSpawns num_or_def)
  moreover have "nat (max 1 (min a 0)) = 1" for a :: int
    by (simp add: max_def min_def)
  ultimately show ?thesis by simp
qed

subsection \<open>Evaluating concrete runs\<close>

lemma hypot_ge_iff: "0 \<le> d \<Longrightarrow> (d \<le> hypot a b) = (d * d \<le> a * a + b * b)"
proof -
  assume d: "0 \<le> d"
  have "d = sqrt (d * d)" using d by simp
  then have "(d \<le> hypot a b) = (sqrt (d * d) \<le> sqrt (a * a + b * b))"
    by (simp add: hypot_def)
  then show ?thesis by (simp only: real_sqrt_le_iff)
qed

lemma hypot_less_iff: "0 \<le> d \<Longrightarrow> (hypot a b < d) = (a * a + b * b < d * d)"
  using hypot_ge_iff [of d a b] by auto



lemma scripted_simps:
  "fromSeed (scripted us) seed = us"
  "nextFloat (scripted us) [] = (0, [])"
  "nextFloat (scripted us) (u # s) = (u, s)"
  by (simp_all add: scripted_def)

text \<open>The stages of \<^verbatim>\<open>generate\<close> up to the pack director, one equation each.\<close>

lemma generate_stages:
  assumes "cfg = (case act_generation act of None \<Rightarrow> no_gen_cfg | Some c \<Rightarrow> c)"
    and "mods = (case opt_mods opts of None \<Rightarrow> [] | Some m \<Rightarrow> m)"
    and "pool = (case act_pool act of None \<Rightarrow> [''grunt''] | Some p \<Rightarrow> p)"
    and "pickRange R (g_width cfg) 1500 3000 (fromSeed R seed) = (w0, s1)"
    and "pickRange R (g_height cfg) 1500 3000 s1 = (h0, s2)"
    and "w = scaleDim tune mods w0" and "h = scaleDim tune mods h0"
    and "generateSpawnPoint R w h s2 = (spawn, s3)"
    and "generateParallax R tune act w h s3 = (par, s4)"
    and "generateExitPoint R spawn w h s4 = (exit, s5)"
    and "generateEnemySpawns R tune pool
           (enemyDensityOf tune cfg (falsy_or (opt_depth opts) 1) mods) w h spawn exit s5
         = (singles, s6)"
    and "applyPackDirector R packs singles pool spawn exit s6 = (en, s7)"
  shows "z_width (generate R tune packs act seed opts) = w"
    and "z_height (generate R tune packs act seed opts) = h"
    and "z_spawn (generate R tune packs act seed opts) = spawn"
    and "z_exit (generate R tune packs act seed opts) = Some exit"
    and "enemySpawns (generate R tune packs act seed opts) = en"
  using assms by (simp_all add: generate_def generateFrom_def Let_def split: prod.splits)

lemma length_packMembers: "length (fst (packMembers f m n s)) = n"
  by (induction n arbitrary: m s) (simp_all add: case_prod_beta)

subsection \<open>MapGenerator.js: spawn and exit edges\<close>

text \<open>
  Claim C5 asks for the exit on the edge opposite the spawn edge: bottom to top, left to
  right, right to left.  \<^verbatim>\<open>generateExitPoint\<close> tests \<^verbatim>\<open>spawn.y > h / 2\<close> first, so a
  spawn point on the left edge in the lower half of the zone gets its exit on the top
  edge.  The run: a 1000 by 1000 zone, the edge pick 0.5 (\<^verbatim>\<open>'left'\<close>), the offset draw
  0.9 (\<open>y = 820\<close>), ten draws for the two stars, and the exit draw 0.5.  The spawn point
  is \<open>(100, 820)\<close> on the left edge; the exit is \<open>(500, 100)\<close> on the top edge, not on
  the right edge \<open>x = 900\<close>.
\<close>

theorem exit_not_opposite_left_spawn:
  "z_width (generate (scripted [0.5, 0.9, 0.1, 0.2, 0.3, 0.4, 0.5, 0.6, 0.7, 0.8, 0.9, 0.1, 0.5])
      small_sky None (square_act 1000) 42 depth1) = 1000
   \<and> z_height (generate (scripted [0.5, 0.9, 0.1, 0.2, 0.3, 0.4, 0.5, 0.6, 0.7, 0.8, 0.9, 0.1, 0.5])
      small_sky None (square_act 1000) 42 depth1) = 1000
   \<and> z_spawn (generate (scripted [0.5, 0.9, 0.1, 0.2, 0.3, 0.4, 0.5, 0.6, 0.7, 0.8, 0.9, 0.1, 0.5])
      small_sky None (square_act 1000) 42 depth1) = \<lparr> pt_x = 100, pt_y = 820 \<rparr>
   \<and> z_exit (generate (scripted [0.5, 0.9, 0.1, 0.2, 0.3, 0.4, 0.5, 0.6, 0.7, 0.8, 0.9, 0.1, 0.5])
      small_sky None (square_act 1000) 42 depth1) = Some \<lparr> pt_x = 500, pt_y = 100 \<rparr>"
proof -
  let ?R = "scripted [0.5, 0.9, 0.1, 0.2, 0.3, 0.4, 0.5, 0.6, 0.7, 0.8, 0.9, 0.1, 0.5]"
  let ?cfg = "no_gen_cfg\<lparr> g_width := DimNum 1000, g_height := DimNum 1000 \<rparr>"
  let ?s0 = "[0.5, 0.9, 0.1, 0.2, 0.3, 0.4, 0.5, 0.6, 0.7, 0.8, 0.9, 0.1, 0.5] :: real list"
  let ?s3 = "[0.1, 0.2, 0.3, 0.4, 0.5, 0.6, 0.7, 0.8, 0.9, 0.1, 0.5] :: real list"
  have c: "?cfg = (case act_generation (square_act 1000) of None \<Rightarrow> no_gen_cfg | Some c \<Rightarrow> c)"
    by (simp add: square_act_def plain_act_def)
  have m: "[] = (case opt_mods depth1 of None \<Rightarrow> [] | Some m \<Rightarrow> m)"
    by (simp add: depth1_def)
  have p: "[''grunt''] = (case act_pool (square_act 1000) of None \<Rightarrow> [''grunt''] | Some p \<Rightarrow> p)"
    by (simp add: square_act_def plain_act_def)
  have w: "pickRange ?R (g_width ?cfg) 1500 3000 (fromSeed ?R 42) = (1000, ?s0)"
    by (simp add: pickRange_def scripted_simps)
  have h: "pickRange ?R (g_height ?cfg) 1500 3000 ?s0 = (1000, ?s0)"
    by (simp add: pickRange_def)
  have d: "1000 = scaleDim small_sky [] 1000"
    by (simp add: scaleDim_def small_sky_def no_tuning_def Let_def)
  have sp: "generateSpawnPoint ?R 1000 1000 ?s0 = (\<lparr> pt_x = 100, pt_y = 820 \<rparr>, ?s3)"
    by (simp add: generateSpawnPoint_def rng_pick_def rng_int_def rng_range_def scripted_simps
        Let_def)
  obtain par where par:
    "generateParallax ?R small_sky (square_act 1000) 1000 1000 ?s3 = (par, [0.5])"
    by (simp add: generateParallax_def generateStarfield_def starBody_def
        generateNebulaWisps_def small_sky_def no_tuning_def num_or_def square_act_def
        plain_act_def Let_def rng_range_def rng_chance_def scripted_simps)
  have ex: "generateExitPoint ?R \<lparr> pt_x = 100, pt_y = 820 \<rparr> 1000 1000 [0.5]
      = (\<lparr> pt_x = 500, pt_y = 100 \<rparr>, [])"
    by (simp add: generateExitPoint_def rng_range_def scripted_simps Let_def)
  obtain singles s6 where en:
    "generateEnemySpawns ?R small_sky [''grunt'']
       (enemyDensityOf small_sky ?cfg (falsy_or (opt_depth depth1) 1) []) 1000 1000
       \<lparr> pt_x = 100, pt_y = 820 \<rparr> \<lparr> pt_x = 500, pt_y = 100 \<rparr> [] = (singles, s6)"
    by fastforce
  obtain en' s7 where pk:
    "applyPackDirector ?R None singles [''grunt'']
       \<lparr> pt_x = 100, pt_y = 820 \<rparr> \<lparr> pt_x = 500, pt_y = 100 \<rparr> s6 = (en', s7)"
    by fastforce
  note st = generate_stages [OF c m p w h d d sp par ex en pk]
  show ?thesis by (simp only: st simp_thms)
qed

subsection \<open>MapGenerator.js: the pack director's budget\<close>

text \<open>
  Claim C2 asks that the pack director returns as many descriptors as it receives.  The
  budget loop stops when the shuffled order is exhausted, but the member loop still emits
  \<open>size\<close> descriptors.  The run: three single descriptors, all valid anchors, and one
  template that asks for exactly four grunts, with a pack-formation chance of 1.  The
  director consumes all three descriptors and returns four.
\<close>

theorem pack_director_inflates:
  "length three_singles = 3
   \<and> length (fst (applyPackDirector (scripted []) (Some squad_of_four) three_singles [''grunt'']
        south north [0.7, 0.2, 0.3, 0.5])) = 4"
proof -
  let ?R = "scripted [] :: real list seeded_random"
  have pd: "templates squad_of_four = [squad]" "packChance squad_of_four = Some 1"
    "packSizeMin squad_of_four = None" "packSizeMax squad_of_four = None"
    "maxPacksPerZone squad_of_four = None" "memberSpacing squad_of_four = None"
    "minDistFromSpawn squad_of_four = None" "minDistFromExit squad_of_four = None"
    by (simp_all add: squad_of_four_def)
  have len: "length three_singles = 3"
    by (simp add: three_singles_def)
  have sh: "shuffleLoop ?R 2 [0, 1, 2] [0.7, 0.2, 0.3, 0.5] = ([1, 0, 2], [0.3, 0.5])"
    by (simp add: numeral_2_eq_2 rng_int_def scripted_simps)
  have va: "validAnchor south north 350 250 (three_singles ! 1)"
    by (simp add: validAnchor_def three_singles_def single_def south_def north_def
        hypot_ge_iff Let_def)
  have ch: "rng_range ?R 0 1 [0.3, 0.5] = (0.3, [0.5])"
    by (simp add: rng_range_def scripted_simps)
  have pt: "pickTemplate ?R [squad] [0.5] = (squad, [])"
    by (simp add: pickTemplate_def tplWeight_def num_or_def rng_range_def scripted_simps
        Let_def)
  have mt: "memberTypesOf ?R squad [] = (Some (replicate 4 (Some ''grunt'')), [])"
    by (simp add: memberTypesOf_def squad_def num_or_def rng_int_def scripted_simps Let_def)
  have cl: "consumeLoop [0, 2] (insert 1 {}) 1 4 = {0, 1, 2}"
    by auto
  obtain members s5 where pm:
    "packMembers (packMember ?R (three_singles ! 1) squad
       (Some (replicate 4 (Some ''grunt''))) [''grunt''] 120 4) 0 4 [] = (members, s5)"
    by fastforce
  have lm: "length members = 4"
    using length_packMembers [of _ 0 4 "[]"] pm by (metis fst_conv)
  have step:
    "packStep ?R squad_of_four three_singles [''grunt''] south north 1 [0, 2]
       \<lparr> used = {}, out = [], packsMade = 0 \<rparr> [0.3, 0.5]
     = (\<lparr> used = {0, 1, 2}, out = members, packsMade = 1 \<rparr>, s5)"
    unfolding packStep_def Let_def pd num_or_def
    using va ch pt mt cl pm len by simp
  have skip:
    "i \<in> {0, 1, 2} \<Longrightarrow>
       packStep ?R squad_of_four three_singles [''grunt''] south north i rest
         \<lparr> used = {0, 1, 2}, out = members, packsMade = 1 \<rparr> s
       = (\<lparr> used = {0, 1, 2}, out = members, packsMade = 1 \<rparr>, s)" for i rest s
    unfolding packStep_def Let_def by simp
  have loop:
    "packLoop 6 (packStep ?R squad_of_four three_singles [''grunt''] south north) [1, 0, 2]
       \<lparr> used = {}, out = [], packsMade = 0 \<rparr> [0.3, 0.5]
     = (\<lparr> used = {0, 1, 2}, out = members, packsMade = 1 \<rparr>, s5)"
    using step skip by simp
  have up: "[0..<3] = [0, 1, 2]"
    by (simp add: upt_rec)
  have "length (fst (applyPackDirector ?R (Some squad_of_four) three_singles [''grunt'']
        south north [0.7, 0.2, 0.3, 0.5])) = 4"
    unfolding applyPackDirector_def
    using sh loop lm by (simp add: len up pd num_or_def)
  with len show ?thesis by simp
qed

subsection \<open>MapGenerator.js: spacing of enemy spawns\<close>

lemma spaced_apart_snoc:
  "spaced_apart d (ps @ [q]) =
     (spaced_apart d ps \<and> (\<forall>p \<in> set ps. d \<le> hypot (sd_x q - sd_x p) (sd_y q - sd_y p)))"
  by (induction ps) auto

lemma enemySpawnLoop_invariant:
  "P spawns \<Longrightarrow> (\<And>sp s. P sp \<Longrightarrow> P (fst (attempt sp s))) \<Longrightarrow>
   P (fst (enemySpawnLoop n count attempt spawns s))"
  by (induction n arbitrary: spawns s) (simp_all add: case_prod_beta)

lemma enemySpawnTry_spacing:
  assumes "away_from dS spawn sp" and "away_from dE exit sp" and "spaced_apart dB sp"
  shows "away_from dS spawn (fst (enemySpawnTry R pool w h spawn exit dS dE dB sp s))
       \<and> away_from dE exit (fst (enemySpawnTry R pool w h spawn exit dS dE dB sp s))
       \<and> spaced_apart dB (fst (enemySpawnTry R pool w h spawn exit dS dE dB sp s))"
  using assms
  by (auto simp add: enemySpawnTry_def Let_def case_prod_beta away_from_def spaced_apart_snoc
      not_less)

lemma generateEnemySpawns_spacing:
  "enemy_spacing tune spawn exit (fst (generateEnemySpawns R tune pool density w h spawn exit s))"
proof -
  let ?dS = "num_or (enemySpawnMinDistFromSpawn tune) 300"
  let ?dE = "num_or (enemySpawnMinDistFromExit tune) 200"
  let ?dB = "num_or (enemySpawnMinDistBetween tune) 150"
  let ?P = "\<lambda>sp. away_from ?dS spawn sp \<and> away_from ?dE exit sp \<and> spaced_apart ?dB sp"
  have "?P (fst (enemySpawnLoop n c (enemySpawnTry R pool w h spawn exit ?dS ?dE ?dB) [] s))"
    for n c
  proof (rule enemySpawnLoop_invariant)
    show "?P []" by (simp add: away_from_def)
    show "?P (fst (enemySpawnTry R pool w h spawn exit ?dS ?dE ?dB sp s'))" if "?P sp" for sp s'
    proof -
      from that have a: "away_from ?dS spawn sp" and b: "away_from ?dE exit sp"
        and c: "spaced_apart ?dB sp"
        by simp_all
      from enemySpawnTry_spacing [OF a b c] show ?thesis .
    qed
  qed
  then show ?thesis
    unfolding generateEnemySpawns_def Let_def enemy_spacing_def .
qed

lemma applyPackDirector_stages:
  assumes "templates pd \<noteq> []"
    and "\<not> int (length spawns) < num_or (packSizeMin pd) 3"
    and "shuffleLoop R (length spawns - 1) [0..<length spawns] s = (idx, s1)"
    and "packLoop (num_or (maxPacksPerZone pd) 6) (packStep R pd spawns pool spawnPt exitPt) idx
           \<lparr> used = {}, out = [], packsMade = 0 \<rparr> s1 = (st, s2)"
  shows "applyPackDirector R (Some pd) spawns pool spawnPt exitPt s =
     (out st @ map (\<lambda>i. spawns ! i) (filter (\<lambda>i. i \<notin> used st) [0..<length spawns]), s2)"
  using assms by (simp add: applyPackDirector_def)

text \<open>
  The run \<open>pack_run\<close> up to the pack director: the spawn point is \<open>(1000, 1900)\<close>, the
  exit \<open>(1000, 100)\<close>, and \<^verbatim>\<open>generateEnemySpawns\<close> accepts three candidates.
\<close>

lemma pack_run_stages:
  assumes "applyPackDirector (scripted pack_script) packs
             [single 1000 1000, single 400 1000, single 1600 1000] [''grunt''] south north
             (drop 28 pack_script) = (en, s7)"
  shows "z_spawn (pack_run packs) = south"
    and "z_exit (pack_run packs) = Some north"
    and "enemySpawns (pack_run packs) = en"
proof -
  let ?R = "scripted pack_script"
  let ?cfg = "no_gen_cfg\<lparr> g_width := DimNum 2000, g_height := DimNum 2000 \<rparr>"
  let ?s3 = "drop 2 pack_script"
  let ?s4 = "drop 12 pack_script"
  let ?s5 = "drop 13 pack_script"
  let ?s6 = "drop 28 pack_script"
  have c: "?cfg = (case act_generation (square_act 2000) of None \<Rightarrow> no_gen_cfg | Some c \<Rightarrow> c)"
    by (simp add: square_act_def plain_act_def)
  have m: "[] = (case opt_mods depth1 of None \<Rightarrow> [] | Some m \<Rightarrow> m)"
    by (simp add: depth1_def)
  have p: "[''grunt''] = (case act_pool (square_act 2000) of None \<Rightarrow> [''grunt''] | Some p \<Rightarrow> p)"
    by (simp add: square_act_def plain_act_def)
  have w: "pickRange ?R (g_width ?cfg) 1500 3000 (fromSeed ?R 42) = (2000, pack_script)"
    by (simp add: pickRange_def scripted_simps)
  have h: "pickRange ?R (g_height ?cfg) 1500 3000 pack_script = (2000, pack_script)"
    by (simp add: pickRange_def)
  have d: "2000 = scaleDim three_enemies [] 2000"
    by (simp add: scaleDim_def three_enemies_def small_sky_def no_tuning_def Let_def)
  have sp: "generateSpawnPoint ?R 2000 2000 pack_script = (south, ?s3)"
    by (simp add: generateSpawnPoint_def rng_pick_def rng_int_def rng_range_def scripted_simps
        Let_def pack_script_def south_def)
  obtain par where par:
    "generateParallax ?R three_enemies (square_act 2000) 2000 2000 ?s3 = (par, ?s4)"
    by (simp add: generateParallax_def generateStarfield_def starBody_def
        generateNebulaWisps_def three_enemies_def small_sky_def no_tuning_def num_or_def
        square_act_def plain_act_def Let_def rng_range_def rng_chance_def scripted_simps
        pack_script_def)
  have ex: "generateExitPoint ?R south 2000 2000 ?s4 = (north, ?s5)"
    by (simp add: generateExitPoint_def rng_range_def scripted_simps Let_def pack_script_def
        south_def north_def)
  have dens: "enemyDensityOf three_enemies ?cfg (falsy_or (opt_depth depth1) 1) [] = 0.000506"
    by (simp add: enemyDensityOf_def three_enemies_def small_sky_def no_tuning_def
        no_gen_cfg_def falsy_or_def depth1_def Let_def)
  let ?attempt = "enemySpawnTry ?R [''grunt''] 2000 2000 south north 300 200 150"
  have t1: "?attempt [] ?s5 = ([single 1000 1000], drop 18 pack_script)"
    by (simp add: enemySpawnTry_def Let_def rng_range_def rng_pick_def rng_int_def
        scripted_simps pack_script_def south_def north_def hypot_less_iff single_def)
  have t2: "?attempt [single 1000 1000] (drop 18 pack_script)
     = ([single 1000 1000, single 400 1000], drop 23 pack_script)"
    by (simp add: enemySpawnTry_def Let_def rng_range_def rng_pick_def rng_int_def
        scripted_simps pack_script_def south_def north_def hypot_less_iff single_def)
  have t3: "?attempt [single 1000 1000, single 400 1000] (drop 23 pack_script)
     = ([single 1000 1000, single 400 1000, single 1600 1000], ?s6)"
    by (simp add: enemySpawnTry_def Let_def rng_range_def rng_pick_def rng_int_def
        scripted_simps pack_script_def south_def north_def hypot_less_iff single_def)
  have lp: "enemySpawnLoop 9 3 ?attempt [] ?s5
     = ([single 1000 1000, single 400 1000, single 1600 1000], ?s6)"
    using t1 t2 t3 by (simp add: eval_nat_numeral)
  have en: "generateEnemySpawns ?R three_enemies [''grunt'']
       (enemyDensityOf three_enemies ?cfg (falsy_or (opt_depth depth1) 1) []) 2000 2000
       south north ?s5 = ([single 1000 1000, single 400 1000, single 1600 1000], ?s6)"
    unfolding dens generateEnemySpawns_def Let_def
    using lp by (simp add: three_enemies_def small_sky_def no_tuning_def num_or_def)
  note st = generate_stages [OF c m p w h d d sp par ex en assms]
  show "z_spawn (pack_run packs) = south"
    and "z_exit (pack_run packs) = Some north"
    and "enemySpawns (pack_run packs) = en"
    unfolding pack_run_def by (simp_all only: st)
qed

text \<open>The pack director on that run: one pack of three around the anchor \<open>(400, 1000)\<close>.\<close>

lemma pack_run_director:
  "applyPackDirector (scripted pack_script) (Some wolfpack)
     [single 1000 1000, single 400 1000, single 1600 1000] [''grunt''] south north
     (drop 28 pack_script)
   = ([member 430 1000, member 475 1000, member 511 1000], [])"
proof -
  let ?R = "scripted pack_script"
  let ?s6 = "drop 28 pack_script"
  let ?sps = "[single 1000 1000, single 400 1000, single 1600 1000]"
  let ?tpl = "\<lparr> tpl_id = Some ''wolfpack'', tpl_weight = None, tpl_members = [],
                      tpl_types = [''grunt''] \<rparr>"
  have pd: "templates wolfpack = [?tpl]" "packChance wolfpack = None"
    "packSizeMin wolfpack = None" "packSizeMax wolfpack = None"
    "maxPacksPerZone wolfpack = None" "memberSpacing wolfpack = None"
    "minDistFromSpawn wolfpack = None" "minDistFromExit wolfpack = None"
    by (simp_all add: wolfpack_def)
  have sh: "shuffleLoop ?R (length ?sps - 1) [0..<length ?sps] ?s6
      = ([1, 0, 2], drop 30 pack_script)"
    by (simp add: rng_int_def scripted_simps pack_script_def upt_rec)
  have va: "validAnchor south north 350 250 (?sps ! 1)"
    by (simp add: validAnchor_def single_def south_def north_def hypot_ge_iff Let_def)
  have ch: "rng_range ?R 0 1 (drop 30 pack_script) = (0.3, drop 31 pack_script)"
    by (simp add: rng_range_def scripted_simps pack_script_def)
  have pt: "pickTemplate ?R [?tpl] (drop 31 pack_script) = (?tpl, drop 32 pack_script)"
    by (simp add: pickTemplate_def tplWeight_def num_or_def rng_range_def scripted_simps
        Let_def pack_script_def)
  have mt: "memberTypesOf ?R ?tpl (drop 32 pack_script) = (None, drop 32 pack_script)"
    by (simp add: memberTypesOf_def)
  have sz: "rng_int ?R 3 5 (drop 32 pack_script) = (3, drop 33 pack_script)"
    by (simp add: rng_int_def scripted_simps pack_script_def)
  have cl: "consumeLoop [0, 2] (insert 1 {}) 1 3 = {0, 1, 2}"
    by auto
  let ?mem = "packMember ?R (single 400 1000) ?tpl None [''grunt''] 120 3"
  have m0: "?mem 0 (drop 33 pack_script) = (member 430 1000, drop 36 pack_script)"
    by (simp add: packMember_def rng_range_def rng_pick_def rng_int_def scripted_simps
        pack_script_def falsy_str_def member_def single_def Let_def)
  have m1: "?mem 1 (drop 36 pack_script) = (member 475 1000, drop 39 pack_script)"
    by (simp add: packMember_def rng_range_def rng_pick_def rng_int_def scripted_simps
        pack_script_def falsy_str_def member_def single_def Let_def)
  have m2: "?mem 2 (drop 39 pack_script) = (member 511 1000, [])"
    by (simp add: packMember_def rng_range_def rng_pick_def rng_int_def scripted_simps
        pack_script_def falsy_str_def member_def single_def Let_def)
  have pm: "packMembers ?mem 0 3 (drop 33 pack_script)
      = ([member 430 1000, member 475 1000, member 511 1000], [])"
    using m0 m1 m2 by (simp add: eval_nat_numeral)
  let ?out = "[member 430 1000, member 475 1000, member 511 1000]"
  have step:
    "packStep ?R wolfpack ?sps [''grunt''] south north 1 [0, 2]
       \<lparr> used = {}, out = [], packsMade = 0 \<rparr> (drop 30 pack_script)
     = (\<lparr> used = {0, 1, 2}, out = ?out, packsMade = 1 \<rparr>, [])"
    unfolding packStep_def Let_def pd num_or_def
    using va ch pt mt sz cl pm by simp
  have skip:
    "i \<in> {0, 1, 2} \<Longrightarrow>
       packStep ?R wolfpack ?sps [''grunt''] south north i rest
         \<lparr> used = {0, 1, 2}, out = ?out, packsMade = 1 \<rparr> s
       = (\<lparr> used = {0, 1, 2}, out = ?out, packsMade = 1 \<rparr>, s)" for i rest s
    unfolding packStep_def Let_def by simp
  have loop:
    "packLoop (num_or (maxPacksPerZone wolfpack) 6)
       (packStep ?R wolfpack ?sps [''grunt''] south north) [1, 0, 2]
       \<lparr> used = {}, out = [], packsMade = 0 \<rparr> (drop 30 pack_script)
     = (\<lparr> used = {0, 1, 2}, out = ?out, packsMade = 1 \<rparr>, [])"
    using step skip by (simp add: pd num_or_def)
  have ne: "templates wolfpack \<noteq> []"
    and big: "\<not> int (length ?sps) < num_or (packSizeMin wolfpack) 3"
    by (simp_all add: pd num_or_def)
  show ?thesis
    using applyPackDirector_stages [OF ne big sh loop] by (simp add: upt_rec)
qed

text \<open>
  Claim C4, as amended.  Every descriptor that \<^verbatim>\<open>generateEnemySpawns\<close> accepts lies at
  least the configured minimum distance from the spawn point (default 300), from the exit
  point (default 200) and from every other accepted descriptor (default 150).  In a zone
  of \<^verbatim>\<open>generate\<close> this holds of the list handed to the pack director, and of the final
  \<^verbatim>\<open>enemySpawns\<close> when no pack data is loaded.
\<close>

theorem enemy_spawns_spaced:
  "enemy_spacing tune spawn exit (fst (generateEnemySpawns R tune pool density w h spawn exit s))
   \<and> (let z = generate R tune packs act seed opts in
        (\<exists>singles pool' s'.
            enemySpawns z
              = fst (applyPackDirector R packs singles pool' (z_spawn z) (the (z_exit z)) s')
          \<and> enemy_spacing tune (z_spawn z) (the (z_exit z)) singles)
      \<and> (packs = None \<longrightarrow> enemy_spacing tune (z_spawn z) (the (z_exit z)) (enemySpawns z)))"
proof -
  let ?z = "generate R tune packs act seed opts"
  obtain pool4 density4 s4 s4' where en:
    "enemySpawns ?z =
       fst (applyPackDirector R packs
         (fst (generateEnemySpawns R tune pool4 density4 (z_width ?z) (z_height ?z)
            (z_spawn ?z) (the (z_exit ?z)) s4))
         pool4 (z_spawn ?z) (the (z_exit ?z)) s4')"
    using enemySpawns_generate [of R tune packs act seed opts] by blast
  let ?singles = "fst (generateEnemySpawns R tune pool4 density4 (z_width ?z) (z_height ?z)
            (z_spawn ?z) (the (z_exit ?z)) s4)"
  have sp: "enemy_spacing tune (z_spawn ?z) (the (z_exit ?z)) ?singles"
    by (rule generateEnemySpawns_spacing)
  have handed: "\<exists>singles pool' s'.
            enemySpawns ?z
              = fst (applyPackDirector R packs singles pool' (z_spawn ?z) (the (z_exit ?z)) s')
          \<and> enemy_spacing tune (z_spawn ?z) (the (z_exit ?z)) singles"
    using en sp by blast
  have nopack: "packs = None \<longrightarrow> enemy_spacing tune (z_spawn ?z) (the (z_exit ?z)) (enemySpawns ?z)"
  proof
    assume p: "packs = None"
    have "fst (applyPackDirector R packs ?singles pool4 (z_spawn ?z) (the (z_exit ?z)) s4') = ?singles"
      unfolding p by (simp add: applyPackDirector_def)
    with en have "enemySpawns ?z = ?singles" by (simp only:)
    with sp show "enemy_spacing tune (z_spawn ?z) (the (z_exit ?z)) (enemySpawns ?z)"
      by (simp only:)
  qed
  from generateEnemySpawns_spacing [of tune spawn exit R pool density w h s] handed nopack
  show ?thesis
    unfolding Let_def by blast
qed

text \<open>
  The theorem on the run \<open>pack_run None\<close>, without pack data: the three accepted
  descriptors are the zone's enemy spawns and keep the three minimum distances.
\<close>

theorem enemy_spawns_spaced_witness:
  "enemySpawns (pack_run None) = [single 1000 1000, single 400 1000, single 1600 1000]
   \<and> enemy_spacing three_enemies south north (enemySpawns (pack_run None))"
proof -
  have pk: "applyPackDirector (scripted pack_script) None
             [single 1000 1000, single 400 1000, single 1600 1000] [''grunt''] south north
             (drop 28 pack_script)
      = ([single 1000 1000, single 400 1000, single 1600 1000], drop 28 pack_script)"
    by (simp add: applyPackDirector_def)
  note st = pack_run_stages [OF pk]
  have "enemy_spacing three_enemies (z_spawn (pack_run None)) (the (z_exit (pack_run None)))
      (enemySpawns (pack_run None))"
    using enemy_spawns_spaced [of three_enemies south north "scripted pack_script" "[]" 0 0 0 "[]"
        None "square_act 2000" 42 depth1]
    by (simp add: Let_def pack_run_def)
  then show ?thesis
    by (simp add: st)
qed

text \<open>
  Claim C4 as stated fails for the descriptors the pack director emits.  On the run
  \<open>pack_run (Some wolfpack)\<close> the final enemy spawns are three pack members at
  \<open>(430, 1000)\<close>, \<open>(475, 1000)\<close> and \<open>(511, 1000)\<close>: the first two are 45 apart, under the
  minimum distance of 150 between enemy spawns.
\<close>

theorem pack_members_too_close_counterexample:
  "enemySpawns (pack_run (Some wolfpack)) = [member 430 1000, member 475 1000, member 511 1000]
   \<and> enemySpawnMinDistBetween three_enemies = None
   \<and> hypot (sd_x (enemySpawns (pack_run (Some wolfpack)) ! 1)
             - sd_x (enemySpawns (pack_run (Some wolfpack)) ! 0))
            (sd_y (enemySpawns (pack_run (Some wolfpack)) ! 1)
             - sd_y (enemySpawns (pack_run (Some wolfpack)) ! 0)) = 45
   \<and> \<not> enemy_spacing three_enemies (z_spawn (pack_run (Some wolfpack)))
         (the (z_exit (pack_run (Some wolfpack)))) (enemySpawns (pack_run (Some wolfpack)))"
proof -
  note st = pack_run_stages [OF pack_run_director]
  have h: "hypot 45 0 = 45"
    by (simp add: hypot_def)
  show ?thesis
    unfolding st
    by (simp add: three_enemies_def small_sky_def no_tuning_def member_def single_def h
        enemy_spacing_def num_or_def hypot_ge_iff)
qed

subsection \<open>Enemies.js: state transitions\<close>












subsection \<open>Enemies.js: the shared heal budget\<close>

lemma bestTarget_index:
  "bestTarget e es i best sc = Some j \<Longrightarrow>
     best = Some j \<or> (i \<le> j \<and> j < i + length es \<and> e_id (es ! (j - i)) \<noteq> e_id e)"
proof (induction es arbitrary: i best sc)
  case Nil
  then show ?case by simp
next
  case (Cons other rest)
  show ?case
  proof (cases "bestTarget e (other # rest) i best sc = bestTarget e rest (Suc i) best sc")
    case True
    with Cons.prems have "bestTarget e rest (Suc i) best sc = Some j" by simp
    from Cons.IH [OF this] show ?thesis
      by (auto simp add: nth_Cons')
  next
    case False
    let ?score = "(if isBoss other then 1000 else if isElite other then 200 else 0)
        + max 0 (e_maxHP other - e_hp other)
        - hypot (e_x other - e_x e) (e_y other - e_y e) * 0.25"
    from False have ne: "e_id other \<noteq> e_id e"
      by (auto simp add: Let_def split: if_splits)
    from False have "bestTarget e (other # rest) i best sc
        = bestTarget e rest (Suc i) (Some i) ?score"
      by (auto simp add: Let_def split: if_splits)
    with Cons.prems have "bestTarget e rest (Suc i) (Some i) ?score = Some j" by simp
    from Cons.IH [OF this] ne show ?thesis
      by (auto simp add: nth_Cons')
  qed
qed

lemma bestTarget_other:
  assumes "bestTarget e es 0 None sc = Some j"
  shows "j < length es \<and> e_id (es ! j) \<noteq> e_id e"
  using bestTarget_index [OF assms] by simp

lemma heal_inv_update_same:
  assumes "heal_inv c dt es0 (es, hb)" and "i < length es" and "same_core (es ! i) e'"
  shows "heal_inv c dt es0 (es[i := e'], hb)"
  using assms unfolding heal_inv_def same_core_def
  by (auto simp add: nth_list_update)

lemma heal_inv_heal:
  assumes inv: "heal_inv c dt es0 (es, hb)" and j: "j < length es"
    and g: "0 < g" and cap: "g \<le> e_maxHP (es ! j) * c * dt - hb (e_id (es ! j))"
  shows "heal_inv c dt es0
     (es[j := (es ! j)\<lparr> e_hp := min (e_maxHP (es ! j)) (e_hp (es ! j) + g) \<rparr>],
      hb(e_id (es ! j) := hb (e_id (es ! j)) + g))"
  unfolding heal_inv_def
proof (intro conjI allI impI)
  show "length (fst (es[j := (es ! j)\<lparr> e_hp := min (e_maxHP (es ! j)) (e_hp (es ! j) + g) \<rparr>],
      hb(e_id (es ! j) := hb (e_id (es ! j)) + g))) = length es0"
    using inv by (simp add: heal_inv_def)
next
  fix k assume k: "k < length es0"
  let ?st = "(es[j := (es ! j)\<lparr> e_hp := min (e_maxHP (es ! j)) (e_hp (es ! j) + g) \<rparr>],
      hb(e_id (es ! j) := hb (e_id (es ! j)) + g))"
  from inv k have len: "length es = length es0"
    and ik: "e_id (es ! k) = e_id (es0 ! k)" and mk: "e_maxHP (es ! k) = e_maxHP (es0 ! k)"
    and ak: "abilities (es ! k) = abilities (es0 ! k)" and rk: "repair (es ! k) = repair (es0 ! k)"
    and h1: "e_hp (es ! k) - e_hp (es0 ! k) \<le> hb (e_id (es0 ! k))"
    and h2: "e_hp (es ! k) - e_hp (es0 ! k) \<le> e_maxHP (es0 ! k) * c * dt"
    and h3: "e_hp (es0 ! k) \<le> e_maxHP (es0 ! k) \<longrightarrow> e_hp (es ! k) \<le> e_maxHP (es0 ! k)"
    by (simp_all add: heal_inv_def)
  show "e_id (fst ?st ! k) = e_id (es0 ! k)"
    using ik j by (simp add: nth_list_update)
  show "e_maxHP (fst ?st ! k) = e_maxHP (es0 ! k)"
    using mk j by (simp add: nth_list_update)
  show "abilities (fst ?st ! k) = abilities (es0 ! k)"
    using ak j by (simp add: nth_list_update)
  show "repair (fst ?st ! k) = repair (es0 ! k)"
    using rk j by (simp add: nth_list_update)
  show "e_hp (fst ?st ! k) - e_hp (es0 ! k) \<le> snd ?st (e_id (es0 ! k))"
  proof (cases "k = j")
    case True
    then show ?thesis using h1 ik j g by (simp add: nth_list_update min_def)
  next
    case False
    then show ?thesis using h1 ik j g by (auto simp add: nth_list_update)
  qed
  show "e_hp (fst ?st ! k) - e_hp (es0 ! k) \<le> e_maxHP (es0 ! k) * c * dt"
  proof (cases "k = j")
    case True
    then show ?thesis using h1 h2 ik mk j g cap by (simp add: nth_list_update min_def)
  next
    case False
    then show ?thesis using h2 j by (simp add: nth_list_update)
  qed
  show "e_hp (fst ?st ! k) \<le> e_maxHP (es0 ! k)" if "e_hp (es0 ! k) \<le> e_maxHP (es0 ! k)"
  proof (cases "k = j")
    case True
    then show ?thesis using mk j by (simp add: nth_list_update)
  next
    case False
    then show ?thesis using h3 that j by (simp add: nth_list_update)
  qed
qed


lemma updateRepairDroneAI_inv:
  assumes inv: "heal_inv c dt es0 (es, hb)" and i: "i < length es"
    and c: "capPctMaxHpPerSec (repairCfgOf (es ! i)) = c"
  shows "heal_inv c dt es0 (updateRepairDroneAI p dt i (es, hb))"
proof (cases "bestTarget (es ! i) es 0 None (- 1000000000)")
  case None
  have "heal_inv c dt es0 (es[i := (es ! i)\<lparr> tether_targetId := None, e_vx := vx, e_vy := vy \<rparr>], hb)"
    for vx vy
    by (rule heal_inv_update_same [OF inv i]) (simp add: same_core_def)
  with None show ?thesis
    by (simp add: updateRepairDroneAI_def Let_def)
next
  case (Some j)
  from bestTarget_other [OF Some] have j: "j < length es" and ne: "e_id (es ! j) \<noteq> e_id (es ! i)"
    by simp_all
  then have ij: "i \<noteq> j" by auto
  let ?best = "es ! j"
  have base: "heal_inv c dt es0
      (es[i := (es ! i)\<lparr> tether_targetId := t, orbit_t := ot, e_vx := vx, e_vy := vy \<rparr>], hb)"
    (is "heal_inv c dt es0 (?es1 t ot vx vy, hb)") for t ot vx vy
    by (rule heal_inv_update_same [OF inv i]) (simp add: same_core_def)
  have healed: "heal_inv c dt es0
      (es[i := (es ! i)\<lparr> tether_targetId := t, orbit_t := ot, e_vx := vx, e_vy := vy \<rparr>,
          j := ?best\<lparr> e_hp := min (e_maxHP ?best) (e_hp ?best + g) \<rparr>],
       hb(e_id ?best := hb (e_id ?best) + g))"
    if g: "0 < g" and cap: "g \<le> e_maxHP ?best * c * dt - hb (e_id ?best)" for t ot vx vy g
  proof -
    have nth: "?es1 t ot vx vy ! j = ?best"
      using ij by simp
    have j1: "j < length (?es1 t ot vx vy)"
      using j by simp
    from heal_inv_heal [OF base j1, where g = g] g cap show ?thesis
      by (simp only: nth)
  qed
  show ?thesis
  proof (cases "hypot (e_x ?best - e_x (es ! i)) (e_y ?best - e_y (es ! i))
        \<le> rep_range (repairCfgOf (es ! i)) \<and> e_hp ?best > 0 \<and> e_hp ?best < e_maxHP ?best
      \<and> 0 < max 0 (min (e_maxHP ?best * healPctMaxHpPerSec (repairCfgOf (es ! i)) * dt)
                 (e_maxHP ?best * capPctMaxHpPerSec (repairCfgOf (es ! i)) * dt - hb (e_id ?best)))")
    case True
    let ?g = "max 0 (min (e_maxHP ?best * healPctMaxHpPerSec (repairCfgOf (es ! i)) * dt)
                 (e_maxHP ?best * capPctMaxHpPerSec (repairCfgOf (es ! i)) * dt - hb (e_id ?best)))"
    from True have g: "0 < ?g" by simp
    then have cap: "?g \<le> e_maxHP ?best * c * dt - hb (e_id ?best)"
      unfolding c by (simp add: max_def min_def split: if_splits)
    from True healed [OF g cap] Some show ?thesis
      by (simp add: updateRepairDroneAI_def Let_def)
  next
    case False
    with base Some show ?thesis
      by (auto simp add: updateRepairDroneAI_def Let_def)
  qed
qed


lemma stateTransitions_same_core: "same_core e (stateTransitions p e)"
  by (simp add: stateTransitions_def same_core_def Let_def)

lemma updateEnemy_inv:
  assumes inv: "heal_inv c dt es0 st" and i: "i < length es0"
    and shared: "\<forall>e \<in> set es0. ''repairTether'' \<in> set (abilities e)
                   \<longrightarrow> capPctMaxHpPerSec (repairCfgOf e) = c"
  shows "heal_inv c dt es0 (updateEnemy steer p dt zw zh i st)"
proof -
  obtain es hb where st: "st = (es, hb)" by (cases st)
  from inv st i have len: "i < length es" by (simp add: heal_inv_def)
  from inv st i have ab: "abilities (es ! i) = abilities (es0 ! i)"
    and rp: "repair (es ! i) = repair (es0 ! i)"
    by (simp_all add: heal_inv_def)
  have ai: "heal_inv c dt es0 (updateExplorationAI steer p dt i (es, hb))"
  proof (cases "''repairTether'' \<in> set (abilities (es ! i))")
    case True
    with ab shared i have "capPctMaxHpPerSec (repairCfgOf (es0 ! i)) = c"
      by simp
    with rp have "capPctMaxHpPerSec (repairCfgOf (es ! i)) = c"
      by (simp add: repairCfgOf_def)
    from updateRepairDroneAI_inv [OF inv [unfolded st] len this] True show ?thesis
      by (simp add: updateExplorationAI_def)
  next
    case False
    have "heal_inv c dt es0 (es[i := (stateTransitions p (es ! i))\<lparr> e_vx := a, e_vy := b \<rparr>], hb)"
      for a b
      by (rule heal_inv_update_same [OF inv [unfolded st] len])
        (use stateTransitions_same_core [of "es ! i" p] in \<open>simp add: same_core_def\<close>)
    with False show ?thesis
      by (simp add: updateExplorationAI_def Let_def)
  qed
  obtain es1 hb1 where st1: "updateExplorationAI steer p dt i (es, hb) = (es1, hb1)"
    by (cases "updateExplorationAI steer p dt i (es, hb)")
  from ai st1 i have len1: "i < length es1" by (simp add: heal_inv_def)
  have "heal_inv c dt es0 (es1[i := (es1 ! i)\<lparr> e_x := a, e_y := b \<rparr>], hb1)" for a b
    by (rule heal_inv_update_same [OF ai [unfolded st1] len1]) (simp add: same_core_def)
  with inv st st1 show ?thesis
    by (simp add: updateEnemy_def Let_def)
qed

lemma updateLoop_inv:
  assumes "heal_inv c dt es0 st" and "i + n \<le> length es0"
    and "\<forall>e \<in> set es0. ''repairTether'' \<in> set (abilities e)
           \<longrightarrow> capPctMaxHpPerSec (repairCfgOf e) = c"
  shows "heal_inv c dt es0 (updateLoop (updateEnemy steer p dt zw zh) n i st)"
  using assms
proof (induction n arbitrary: i st)
  case 0
  then show ?case by simp
next
  case (Suc n)
  from Suc.prems have i: "i < length es0" by simp
  from updateEnemy_inv [OF Suc.prems(1) i Suc.prems(3)]
  have "heal_inv c dt es0 (updateEnemy steer p dt zw zh i st)" .
  from Suc.IH [OF this _ Suc.prems(3)] Suc.prems(2) show ?case by simp
qed

text \<open>
  Claim C9.  In one frame of \<^verbatim>\<open>Enemies.update\<close> in exploration mode, with a frame time
  \<open>dt \<ge> 0\<close>, non-negative maximum healths and every repair drone configured with the
  same cap \<open>c \<ge> 0\<close> (\<^verbatim>\<open>capPctMaxHpPerSec\<close>): whatever the number of drones and their
  targets, the health of every enemy grows by at most \<open>maxHP * c * dt\<close> over the frame,
  the only writes to health in the frame being the heals; its maximum health is
  unchanged; and its health does not exceed its maximum if it did not at the start.
\<close>

theorem heal_budget_bound:
  assumes "0 \<le> dt" and "0 \<le> c"
    and "\<forall>e \<in> set es. 0 \<le> e_maxHP e"
    and "\<forall>e \<in> set es. ''repairTether'' \<in> set (abilities e)
           \<longrightarrow> capPctMaxHpPerSec (repairCfgOf e) = c"
  shows "length (update_frame steer p dt zw zh es) = length es
    \<and> (\<forall>j < length es.
          e_hp (update_frame steer p dt zw zh es ! j) - e_hp (es ! j) \<le> e_maxHP (es ! j) * c * dt
        \<and> e_maxHP (update_frame steer p dt zw zh es ! j) = e_maxHP (es ! j)
        \<and> (e_hp (es ! j) \<le> e_maxHP (es ! j)
             \<longrightarrow> e_hp (update_frame steer p dt zw zh es ! j)
                   \<le> e_maxHP (update_frame steer p dt zw zh es ! j)))"
proof -
  have "0 \<le> e_maxHP (es ! j) * c * dt" if "j < length es" for j
    using assms(1,2,3) that by simp
  then have init: "heal_inv c dt es (es, \<lambda>_. 0)"
    by (simp add: heal_inv_def)
  from updateLoop_inv [OF init _ assms(4), of 0 "length es" steer p zw zh]
  have "heal_inv c dt es (updateLoop (updateEnemy steer p dt zw zh) (length es) 0 (es, \<lambda>_. 0))"
    by simp
  then show ?thesis
    unfolding update_frame_def heal_inv_def by simp
qed


text \<open>
  The theorem on a frame of 0.1 seconds with two drones beside one ally of 10 of 100
  health, under the default cap of 0.04: the ally ends the frame with at most 10.4.
\<close>

theorem heal_budget_bound_witness:
  "e_hp (update_frame hold far_player (1 / 10) 3000 3000
           [hurt_ally, drone ''d_1'', drone ''d_2''] ! 0) \<le> 10 + 100 * (4 / 100) * (1 / 10)
   \<and> e_maxHP (update_frame hold far_player (1 / 10) 3000 3000
           [hurt_ally, drone ''d_1'', drone ''d_2''] ! 0) = 100
   \<and> length (update_frame hold far_player (1 / 10) 3000 3000
           [hurt_ally, drone ''d_1'', drone ''d_2'']) = 3"
proof -
  let ?es = "[hurt_ally, drone ''d_1'', drone ''d_2'']"
  have a: "(0::real) \<le> 1 / 10" and b: "(0::real) \<le> 4 / 100"
    by simp_all
  have c: "\<forall>e \<in> set ?es. 0 \<le> e_maxHP e"
    by (simp add: hurt_ally_def drone_def grunt_at_def)
  have d: "\<forall>e \<in> set ?es. ''repairTether'' \<in> set (abilities e)
             \<longrightarrow> capPctMaxHpPerSec (repairCfgOf e) = 4 / 100"
    by (simp add: hurt_ally_def drone_def grunt_at_def repairCfgOf_def)
  have e: "e_hp (?es ! 0) = 10" "e_maxHP (?es ! 0) = 100" "(0::nat) < length ?es"
    by (simp_all add: hurt_ally_def grunt_at_def)
  from heal_budget_bound [OF a b c d, of hold far_player 3000 3000]
  have len: "length (update_frame hold far_player (1 / 10) 3000 3000 ?es) = length ?es"
    and all: "\<forall>j < length ?es.
          e_hp (update_frame hold far_player (1 / 10) 3000 3000 ?es ! j) - e_hp (?es ! j)
            \<le> e_maxHP (?es ! j) * (4 / 100) * (1 / 10)
        \<and> e_maxHP (update_frame hold far_player (1 / 10) 3000 3000 ?es ! j) = e_maxHP (?es ! j)
        \<and> (e_hp (?es ! j) \<le> e_maxHP (?es ! j)
             \<longrightarrow> e_hp (update_frame hold far_player (1 / 10) 3000 3000 ?es ! j)
                   \<le> e_maxHP (update_frame hold far_player (1 / 10) 3000 3000 ?es ! j))"
    by blast+
  from all [rule_format, OF e(3)] e(1,2) len show ?thesis
    by simp
qed

subsection \<open>World.js: despawning\<close>




















lemma spawnEnemy_place:
  "sd_x (fst (spawnEnemy create tune elite spawn ws)) = sd_x spawn
   \<and> sd_y (fst (spawnEnemy create tune elite spawn ws)) = sd_y spawn"
  by (simp add: spawnEnemy_def Let_def)






































subsection \<open>Invariants.js\<close>

lemma length_newest: "length (newest mx arr) = min mx (length arr)"
  by (simp add: newest_def)

lemma capArray_soft:
  "softFuseOnCaps iv \<Longrightarrow>
     capArray iv arr mx label =
       (newest mx arr, if length arr \<le> mx then [] else [SoftFuse label mx (length arr - mx)], None)"
  by (simp add: capArray_def newest_def Let_def)

lemma capArray_hard:
  "\<not> softFuseOnCaps iv \<Longrightarrow>
     capArray iv arr mx label =
       (if length arr \<le> mx then (arr, [], None)
        else (drop (length arr - mx) arr, [], Some (INV_CAP_EXCEEDED label mx (length arr))))"
  by (simp add: capArray_def Let_def)

lemma postFrame_soft_state:
  assumes "enabled iv" and "softFuseOnCaps iv"
  shows "fst (postFrame iv checks st) =
     st\<lparr> bullets := newest (cap_bullets (caps iv)) (bullets st),
         enemyBullets := newest (cap_enemyBullets (caps iv)) (enemyBullets st),
         enemies := newest (cap_enemies (caps iv)) (enemies st),
         pickups := newest (cap_pickups (caps iv)) (pickups st),
         particles := newest (cap_particles (caps iv)) (particles st) \<rparr>"
  using assms by (simp add: postFrame_def capArray_soft Let_def)

lemma postFrame_soft_warnings:
  assumes "enabled iv" and "softFuseOnCaps iv"
  shows "fst (snd (postFrame iv checks st)) =
       (if length (bullets st) \<le> cap_bullets (caps iv) then []
        else [SoftFuse ''State.bullets'' (cap_bullets (caps iv))
                (length (bullets st) - cap_bullets (caps iv))])
     @ (if length (enemyBullets st) \<le> cap_enemyBullets (caps iv) then []
        else [SoftFuse ''State.enemyBullets'' (cap_enemyBullets (caps iv))
                (length (enemyBullets st) - cap_enemyBullets (caps iv))])
     @ (if length (enemies st) \<le> cap_enemies (caps iv) then []
        else [SoftFuse ''State.enemies'' (cap_enemies (caps iv))
                (length (enemies st) - cap_enemies (caps iv))])
     @ (if length (pickups st) \<le> cap_pickups (caps iv) then []
        else [SoftFuse ''State.pickups'' (cap_pickups (caps iv))
                (length (pickups st) - cap_pickups (caps iv))])
     @ (if length (particles st) \<le> cap_particles (caps iv) then []
        else [SoftFuse ''State.particles'' (cap_particles (caps iv))
                (length (particles st) - cap_particles (caps iv))])"
  using assms by (simp add: postFrame_def capArray_soft Let_def)

lemma postFrame_soft_error:
  assumes "enabled iv" and "softFuseOnCaps iv"
  shows "snd (snd (postFrame iv checks st)) = checks (fst (postFrame iv checks st))"
  using assms by (simp add: postFrame_def capArray_soft Let_def)

lemma postFrame_hard:
  assumes "enabled iv" and "\<not> softFuseOnCaps iv"
  shows "postFrame iv checks st =
     (if cap_bullets (caps iv) < length (bullets st) then
        (st\<lparr> bullets := drop (length (bullets st) - cap_bullets (caps iv)) (bullets st) \<rparr>, [],
         Some (INV_CAP_EXCEEDED ''State.bullets'' (cap_bullets (caps iv)) (length (bullets st))))
      else if cap_enemyBullets (caps iv) < length (enemyBullets st) then
        (st\<lparr> enemyBullets :=
               drop (length (enemyBullets st) - cap_enemyBullets (caps iv)) (enemyBullets st) \<rparr>,
         [],
         Some (INV_CAP_EXCEEDED ''State.enemyBullets'' (cap_enemyBullets (caps iv))
                 (length (enemyBullets st))))
      else if cap_enemies (caps iv) < length (enemies st) then
        (st\<lparr> enemies := drop (length (enemies st) - cap_enemies (caps iv)) (enemies st) \<rparr>, [],
         Some (INV_CAP_EXCEEDED ''State.enemies'' (cap_enemies (caps iv)) (length (enemies st))))
      else if cap_pickups (caps iv) < length (pickups st) then
        (st\<lparr> pickups := drop (length (pickups st) - cap_pickups (caps iv)) (pickups st) \<rparr>, [],
         Some (INV_CAP_EXCEEDED ''State.pickups'' (cap_pickups (caps iv)) (length (pickups st))))
      else if cap_particles (caps iv) < length (particles st) then
        (st\<lparr> particles := drop (length (particles st) - cap_particles (caps iv)) (particles st) \<rparr>,
         [],
         Some (INV_CAP_EXCEEDED ''State.particles'' (cap_particles (caps iv))
                 (length (particles st))))
      else (st, [], checks st))"
  using assms by (simp add: postFrame_def capArray_hard Let_def not_less)


text \<open>
  Claim C8, as amended.  With the guard enabled and \<^verbatim>\<open>softFuseOnCaps\<close> set (the values
  the module exports), after \<^verbatim>\<open>postFrame\<close> each of the five tracked collections is the
  old collection without its oldest \<open>length - cap\<close> entries: the newest \<open>cap\<close> entries
  survive in their order, so every length is at most its cap.  Each collection that was
  over its cap writes one \<open>SoftFuse\<close> warning with its label, its cap and the number of
  entries trimmed, in the order of the five calls, and nothing else is written; the caps
  raise no error: the only error \<^verbatim>\<open>postFrame\<close> returns is the one of the finiteness
  assertions that follow.  With \<^verbatim>\<open>softFuseOnCaps\<close> off, the first collection over its
  cap is trimmed the same way and \<^verbatim>\<open>capArray\<close> throws \<open>INV_CAP_EXCEEDED\<close> with the label,
  the cap and the length before the trim: nothing is written and the later collections
  stay as they were.  With the guard disabled \<^verbatim>\<open>postFrame\<close> does nothing.
\<close>

theorem postFrame_soft_fuse:
  "(enabled iv \<and> softFuseOnCaps iv \<longrightarrow>
     (let st' = fst (postFrame iv checks st) in
        bullets st' = drop (length (bullets st) - cap_bullets (caps iv)) (bullets st)
      \<and> enemyBullets st'
          = drop (length (enemyBullets st) - cap_enemyBullets (caps iv)) (enemyBullets st)
      \<and> enemies st' = drop (length (enemies st) - cap_enemies (caps iv)) (enemies st)
      \<and> pickups st' = drop (length (pickups st) - cap_pickups (caps iv)) (pickups st)
      \<and> particles st' = drop (length (particles st) - cap_particles (caps iv)) (particles st)
      \<and> length (bullets st') \<le> cap_bullets (caps iv)
      \<and> length (enemyBullets st') \<le> cap_enemyBullets (caps iv)
      \<and> length (enemies st') \<le> cap_enemies (caps iv)
      \<and> length (pickups st') \<le> cap_pickups (caps iv)
      \<and> length (particles st') \<le> cap_particles (caps iv)
      \<and> fst (snd (postFrame iv checks st)) =
           (if length (bullets st) \<le> cap_bullets (caps iv) then []
            else [SoftFuse ''State.bullets'' (cap_bullets (caps iv))
                    (length (bullets st) - cap_bullets (caps iv))])
         @ (if length (enemyBullets st) \<le> cap_enemyBullets (caps iv) then []
            else [SoftFuse ''State.enemyBullets'' (cap_enemyBullets (caps iv))
                    (length (enemyBullets st) - cap_enemyBullets (caps iv))])
         @ (if length (enemies st) \<le> cap_enemies (caps iv) then []
            else [SoftFuse ''State.enemies'' (cap_enemies (caps iv))
                    (length (enemies st) - cap_enemies (caps iv))])
         @ (if length (pickups st) \<le> cap_pickups (caps iv) then []
            else [SoftFuse ''State.pickups'' (cap_pickups (caps iv))
                    (length (pickups st) - cap_pickups (caps iv))])
         @ (if length (particles st) \<le> cap_particles (caps iv) then []
            else [SoftFuse ''State.particles'' (cap_particles (caps iv))
                    (length (particles st) - cap_particles (caps iv))])
      \<and> snd (snd (postFrame iv checks st)) = checks st'))
   \<and> (enabled iv \<and> \<not> softFuseOnCaps iv \<longrightarrow>
        postFrame iv checks st =
     (if cap_bullets (caps iv) < length (bullets st) then
        (st\<lparr> bullets := drop (length (bullets st) - cap_bullets (caps iv)) (bullets st) \<rparr>, [],
         Some (INV_CAP_EXCEEDED ''State.bullets'' (cap_bullets (caps iv)) (length (bullets st))))
      else if cap_enemyBullets (caps iv) < length (enemyBullets st) then
        (st\<lparr> enemyBullets :=
               drop (length (enemyBullets st) - cap_enemyBullets (caps iv)) (enemyBullets st) \<rparr>,
         [],
         Some (INV_CAP_EXCEEDED ''State.enemyBullets'' (cap_enemyBullets (caps iv))
                 (length (enemyBullets st))))
      else if cap_enemies (caps iv) < length (enemies st) then
        (st\<lparr> enemies := drop (length (enemies st) - cap_enemies (caps iv)) (enemies st) \<rparr>, [],
         Some (INV_CAP_EXCEEDED ''State.enemies'' (cap_enemies (caps iv)) (length (enemies st))))
      else if cap_pickups (caps iv) < length (pickups st) then
        (st\<lparr> pickups := drop (length (pickups st) - cap_pickups (caps iv)) (pickups st) \<rparr>, [],
         Some (INV_CAP_EXCEEDED ''State.pickups'' (cap_pickups (caps iv)) (length (pickups st))))
      else if cap_particles (caps iv) < length (particles st) then
        (st\<lparr> particles := drop (length (particles st) - cap_particles (caps iv)) (particles st) \<rparr>,
         [],
         Some (INV_CAP_EXCEEDED ''State.particles'' (cap_particles (caps iv))
                 (length (particles st))))
      else (st, [], checks st)))
   \<and> (\<not> enabled iv \<longrightarrow> postFrame iv checks st = (st, [], None))"
proof (intro conjI impI)
  assume a: "enabled iv \<and> softFuseOnCaps iv"
  then have e: "enabled iv" and f: "softFuseOnCaps iv"
    by simp_all
  show "let st' = fst (postFrame iv checks st) in
        bullets st' = drop (length (bullets st) - cap_bullets (caps iv)) (bullets st)
      \<and> enemyBullets st'
          = drop (length (enemyBullets st) - cap_enemyBullets (caps iv)) (enemyBullets st)
      \<and> enemies st' = drop (length (enemies st) - cap_enemies (caps iv)) (enemies st)
      \<and> pickups st' = drop (length (pickups st) - cap_pickups (caps iv)) (pickups st)
      \<and> particles st' = drop (length (particles st) - cap_particles (caps iv)) (particles st)
      \<and> length (bullets st') \<le> cap_bullets (caps iv)
      \<and> length (enemyBullets st') \<le> cap_enemyBullets (caps iv)
      \<and> length (enemies st') \<le> cap_enemies (caps iv)
      \<and> length (pickups st') \<le> cap_pickups (caps iv)
      \<and> length (particles st') \<le> cap_particles (caps iv)
      \<and> fst (snd (postFrame iv checks st)) =
           (if length (bullets st) \<le> cap_bullets (caps iv) then []
            else [SoftFuse ''State.bullets'' (cap_bullets (caps iv))
                    (length (bullets st) - cap_bullets (caps iv))])
         @ (if length (enemyBullets st) \<le> cap_enemyBullets (caps iv) then []
            else [SoftFuse ''State.enemyBullets'' (cap_enemyBullets (caps iv))
                    (length (enemyBullets st) - cap_enemyBullets (caps iv))])
         @ (if length (enemies st) \<le> cap_enemies (caps iv) then []
            else [SoftFuse ''State.enemies'' (cap_enemies (caps iv))
                    (length (enemies st) - cap_enemies (caps iv))])
         @ (if length (pickups st) \<le> cap_pickups (caps iv) then []
            else [SoftFuse ''State.pickups'' (cap_pickups (caps iv))
                    (length (pickups st) - cap_pickups (caps iv))])
         @ (if length (particles st) \<le> cap_particles (caps iv) then []
            else [SoftFuse ''State.particles'' (cap_particles (caps iv))
                    (length (particles st) - cap_particles (caps iv))])
      \<and> snd (snd (postFrame iv checks st)) = checks st'"
    unfolding Let_def postFrame_soft_warnings [OF e f] postFrame_soft_error [OF e f]
      postFrame_soft_state [OF e f]
    by (auto simp add: newest_def)
next
  assume "enabled iv \<and> \<not> softFuseOnCaps iv"
  then have e: "enabled iv" and n: "\<not> softFuseOnCaps iv"
    by simp_all
  show "postFrame iv checks st =
     (if cap_bullets (caps iv) < length (bullets st) then
        (st\<lparr> bullets := drop (length (bullets st) - cap_bullets (caps iv)) (bullets st) \<rparr>, [],
         Some (INV_CAP_EXCEEDED ''State.bullets'' (cap_bullets (caps iv)) (length (bullets st))))
      else if cap_enemyBullets (caps iv) < length (enemyBullets st) then
        (st\<lparr> enemyBullets :=
               drop (length (enemyBullets st) - cap_enemyBullets (caps iv)) (enemyBullets st) \<rparr>,
         [],
         Some (INV_CAP_EXCEEDED ''State.enemyBullets'' (cap_enemyBullets (caps iv))
                 (length (enemyBullets st))))
      else if cap_enemies (caps iv) < length (enemies st) then
        (st\<lparr> enemies := drop (length (enemies st) - cap_enemies (caps iv)) (enemies st) \<rparr>, [],
         Some (INV_CAP_EXCEEDED ''State.enemies'' (cap_enemies (caps iv)) (length (enemies st))))
      else if cap_pickups (caps iv) < length (pickups st) then
        (st\<lparr> pickups := drop (length (pickups st) - cap_pickups (caps iv)) (pickups st) \<rparr>, [],
         Some (INV_CAP_EXCEEDED ''State.pickups'' (cap_pickups (caps iv)) (length (pickups st))))
      else if cap_particles (caps iv) < length (particles st) then
        (st\<lparr> particles := drop (length (particles st) - cap_particles (caps iv)) (particles st) \<rparr>,
         [],
         Some (INV_CAP_EXCEEDED ''State.particles'' (cap_particles (caps iv))
                 (length (particles st))))
      else (st, [], checks st))"
    by (rule postFrame_hard [OF e n])
next
  assume "\<not> enabled iv"
  then show "postFrame iv checks st = (st, [], None)"
    by (simp add: postFrame_def)
qed

text \<open>
  Scenario D of the specification as the witness: 3000 bullets, pushed in the order
  \<open>0, 1, \<dots>, 2999\<close>, under the default cap of 2000, leave the newest 2000 and one
  warning.  With the soft fuse off, four pickups under a cap of two are trimmed to the
  newest two and the error is thrown before the particles are looked at; with the guard
  disabled nothing is trimmed.
\<close>

theorem postFrame_soft_fuse_witness:
  "enabled Invariants \<and> softFuseOnCaps Invariants
   \<and> bullets (fst (postFrame Invariants (\<lambda>_. None)
        \<lparr> bullets = [0..<3000], enemyBullets = [], enemies = [], pickups = [], particles = [] \<rparr>))
      = [1000..<3000]
   \<and> length (bullets (fst (postFrame Invariants (\<lambda>_. None)
        \<lparr> bullets = [0..<3000], enemyBullets = [], enemies = [], pickups = [], particles = [] \<rparr>)))
      = 2000
   \<and> fst (snd (postFrame Invariants (\<lambda>_. None)
        \<lparr> bullets = [0..<3000], enemyBullets = [], enemies = [], pickups = [], particles = [] \<rparr>))
      = [SoftFuse ''State.bullets'' 2000 1000]
   \<and> snd (snd (postFrame Invariants (\<lambda>_. None)
        \<lparr> bullets = [0..<3000], enemyBullets = [], enemies = [], pickups = [], particles = [] \<rparr>))
      = None
   \<and> postFrame (Invariants\<lparr> softFuseOnCaps := False, caps := tight_caps \<rparr>) (\<lambda>_. None)
        \<lparr> bullets = [1, 2 :: nat], enemyBullets = [], enemies = [3], pickups = [4, 5, 6, 7],
          particles = [8, 9, 10] \<rparr>
      = (\<lparr> bullets = [1, 2], enemyBullets = [], enemies = [3], pickups = [6, 7],
           particles = [8, 9, 10] \<rparr>,
         [], Some (INV_CAP_EXCEEDED ''State.pickups'' 2 4))
   \<and> postFrame (Invariants\<lparr> enabled := False \<rparr>) (\<lambda>_. None)
        \<lparr> bullets = [0..<3000], enemyBullets = [], enemies = [], pickups = [], particles = [] \<rparr>
      = (\<lparr> bullets = [0..<3000], enemyBullets = [], enemies = [], pickups = [], particles = [] \<rparr>,
         [], None)"
proof -
  have e: "enabled Invariants" and f: "softFuseOnCaps Invariants"
    by (simp_all add: Invariants_def)
  have c: "cap_bullets (caps Invariants) = 2000"
    by (simp add: Invariants_def DEFAULT_CAPS_def)
  note soft = postFrame_soft_fuse [of Invariants "\<lambda>_. None"
      "\<lparr> bullets = [0..<3000], enemyBullets = [], enemies = [], pickups = [], particles = [] \<rparr>",
      THEN conjunct1, THEN mp, OF conjI [OF e f]]
  have h: "enabled (Invariants\<lparr> softFuseOnCaps := False, caps := tight_caps \<rparr>)
      \<and> \<not> softFuseOnCaps (Invariants\<lparr> softFuseOnCaps := False, caps := tight_caps \<rparr>)"
    by (simp add: Invariants_def)
  note hard = postFrame_soft_fuse [of "Invariants\<lparr> softFuseOnCaps := False, caps := tight_caps \<rparr>"
      "\<lambda>_. None"
      "\<lparr> bullets = [1, 2 :: nat], enemyBullets = [], enemies = [3], pickups = [4, 5, 6, 7],
         particles = [8, 9, 10] \<rparr>",
      THEN conjunct2, THEN conjunct1, THEN mp, OF h]
  have d: "\<not> enabled (Invariants\<lparr> enabled := False \<rparr>)"
    by simp
  note off = postFrame_soft_fuse [of "Invariants\<lparr> enabled := False \<rparr>" "\<lambda>_. None"
      "\<lparr> bullets = [0..<3000], enemyBullets = [], enemies = [], pickups = [], particles = [] \<rparr>",
      THEN conjunct2, THEN conjunct2, THEN mp, OF d]
  have s1: "bullets (fst (postFrame Invariants (\<lambda>_. None)
        \<lparr> bullets = [0..<3000], enemyBullets = [], enemies = [], pickups = [], particles = [] \<rparr>))
      = [1000..<3000]
   \<and> length (bullets (fst (postFrame Invariants (\<lambda>_. None)
        \<lparr> bullets = [0..<3000], enemyBullets = [], enemies = [], pickups = [], particles = [] \<rparr>)))
      = 2000
   \<and> fst (snd (postFrame Invariants (\<lambda>_. None)
        \<lparr> bullets = [0..<3000], enemyBullets = [], enemies = [], pickups = [], particles = [] \<rparr>))
      = [SoftFuse ''State.bullets'' 2000 1000]
   \<and> snd (snd (postFrame Invariants (\<lambda>_. None)
        \<lparr> bullets = [0..<3000], enemyBullets = [], enemies = [], pickups = [], particles = [] \<rparr>))
      = None"
    using soft by (simp add: Let_def c)
  have s2: "postFrame (Invariants\<lparr> softFuseOnCaps := False, caps := tight_caps \<rparr>) (\<lambda>_. None)
        \<lparr> bullets = [1, 2 :: nat], enemyBullets = [], enemies = [3], pickups = [4, 5, 6, 7],
          particles = [8, 9, 10] \<rparr>
      = (\<lparr> bullets = [1, 2], enemyBullets = [], enemies = [3], pickups = [6, 7],
           particles = [8, 9, 10] \<rparr>,
         [], Some (INV_CAP_EXCEEDED ''State.pickups'' 2 4))"
    using hard by (simp add: tight_caps_def)
  from e f s1 s2 off show ?thesis
    by simp
qed

text \<open>
  Claim C8 as stated fails when \<^verbatim>\<open>softFuseOnCaps\<close> is off: three bullets under a cap of
  two are trimmed, then \<^verbatim>\<open>capArray\<close> throws \<open>INV_CAP_EXCEEDED\<close>, and the enemy bullets,
  whose turn never comes, stay above their cap.
\<close>

theorem postFrame_cap_error_counterexample:
  "postFrame
     (Invariants\<lparr> softFuseOnCaps := False,
        caps := \<lparr> cap_bullets = 2, cap_enemyBullets = 2, cap_enemies = 2, cap_pickups = 2,
                  cap_particles = 2 \<rparr> \<rparr>)
     (\<lambda>_. None)
     \<lparr> bullets = [1, 2, 3 :: nat], enemyBullets = [4, 5, 6], enemies = [], pickups = [],
       particles = [] \<rparr>
   = (\<lparr> bullets = [2, 3], enemyBullets = [4, 5, 6], enemies = [], pickups = [], particles = [] \<rparr>,
      [], Some (INV_CAP_EXCEEDED ''State.bullets'' 2 3))"
  by (simp add: postFrame_def capArray_def Invariants_def Let_def)

end
